theory Spec2Isabelle
  imports Complex_Main "HOL-Library.Word"
begin

unbundle bit_operations_syntax

section \<open>The JavaScript Map behind the peer directory\<close>

text \<open>
  \<^verbatim>\<open>PeerManager.seenPeers\<close> is a JavaScript \<^verbatim>\<open>Map\<close>. ECMAScript specifies a Map as a
  list of entries in insertion order: \<^verbatim>\<open>set\<close> replaces the value of the entry whose key is
  already there and appends a new entry otherwise, \<^verbatim>\<open>delete\<close> removes the entry of the key
  and reports whether there was one. The model is that entry list.
\<close>

type_synonym ('k, 'v) js_map = "('k \<times> 'v) list"

definition Map_get :: "('k, 'v) js_map \<Rightarrow> 'k \<Rightarrow> 'v option" where
  "Map_get m k = map_of m k"

definition Map_has :: "('k, 'v) js_map \<Rightarrow> 'k \<Rightarrow> bool" where
  "Map_has m k = (k \<in> fst ` set m)"

primrec Map_set :: "('k, 'v) js_map \<Rightarrow> 'k \<Rightarrow> 'v \<Rightarrow> ('k, 'v) js_map" where
  "Map_set [] k v = [(k, v)]"
| "Map_set (e # es) k v = (if fst e = k then (k, v) # es else e # Map_set es k v)"

primrec Map_delete :: "('k, 'v) js_map \<Rightarrow> 'k \<Rightarrow> ('k, 'v) js_map" where
  "Map_delete [] k = []"
| "Map_delete (e # es) k = (if fst e = k then es else e # Map_delete es k)"

definition Map_size :: "('k, 'v) js_map \<Rightarrow> nat" where
  "Map_size m = length m"

section \<open>Configuration constants\<close>

text \<open>
  The constants module reads most of its values from the process environment
  (\<^verbatim>\<open>parseInt(process.env.MAX_PEERS) || 10000\<close> and so on), so they are fixed per process
  but not per program; \<^verbatim>\<open>PEER_TIMEOUT\<close> is the literal 15000. The model takes the constants
  that the modelled code uses as a record, and \<open>default_config\<close> holds the values of an
  empty environment.
\<close>

record config =
  MAX_PEERS :: int
  PEER_TIMEOUT :: int
  SCAN_PORT :: int
  BOOTSTRAP_TIMEOUT :: int
  PEER_CACHE_ENABLED :: bool
  PEER_CACHE_MAX_AGE :: int
  BOOTSTRAP_PEER_IP :: "string option"

definition default_config :: config where
  "default_config = \<lparr> MAX_PEERS = 10000, PEER_TIMEOUT = 15000, SCAN_PORT = 3000,
     BOOTSTRAP_TIMEOUT = 10000, PEER_CACHE_ENABLED = False, PEER_CACHE_MAX_AGE = 86400,
     BOOTSTRAP_PEER_IP = None \<rparr>"

section \<open>The peer directory (class PeerManager)\<close>

text \<open>
  A stored entry is the object literal that \<^verbatim>\<open>addOrUpdatePeer\<close> or \<^verbatim>\<open>fromJSON\<close> writes:
  \<^verbatim>\<open>seq\<close>, \<^verbatim>\<open>lastSeen\<close> (milliseconds since the epoch), \<^verbatim>\<open>key\<close> (a Buffer or null) and,
  from \<^verbatim>\<open>fromJSON\<close> only, \<^verbatim>\<open>ip\<close> and \<^verbatim>\<open>port\<close>. \<open>None\<close> stands for a field that is
  \<^verbatim>\<open>null\<close> or \<^verbatim>\<open>undefined\<close>. A peer id is a string, or \<^verbatim>\<open>null\<close> for a scanned peer that has
  not completed a handshake.
\<close>

type_synonym peer_id = "string option"
type_synonym buffer = "8 word list"

record peer_data =
  seq :: int
  lastSeen :: int
  key :: "buffer option"
  ip :: "string option"
  port :: "int option"

record PeerManager =
  seenPeers :: "(peer_id, peer_data) js_map"
  mySeq :: int

definition constructor :: PeerManager where
  "constructor = \<lparr> seenPeers = [], mySeq = 0 \<rparr>"

text \<open>
  Every method that reads \<^verbatim>\<open>Date.now()\<close> once takes the value read as \<open>now\<close>. A method that
  mutates \<^verbatim>\<open>this\<close> returns its result together with the new object.
\<close>

definition addOrUpdatePeer ::
  "int \<Rightarrow> peer_id \<Rightarrow> int \<Rightarrow> buffer option \<Rightarrow> PeerManager \<Rightarrow> bool \<times> PeerManager" where
  "addOrUpdatePeer now pid sq k pm =
     (let stored = Map_get (seenPeers pm) pid;
          wasNew = (stored = None)
      in (wasNew,
          pm\<lparr>seenPeers := Map_set (seenPeers pm) pid
                \<lparr> seq = sq, lastSeen = now, key = k, ip = None, port = None \<rparr>\<rparr>))"

definition canAcceptPeer :: "config \<Rightarrow> PeerManager \<Rightarrow> peer_id \<Rightarrow> bool" where
  "canAcceptPeer cfg pm pid =
     (if Map_has (seenPeers pm) pid then True
      else int (Map_size (seenPeers pm)) < MAX_PEERS cfg)"

definition getPeer :: "PeerManager \<Rightarrow> peer_id \<Rightarrow> peer_data option" where
  "getPeer pm pid = Map_get (seenPeers pm) pid"

definition removePeer :: "peer_id \<Rightarrow> PeerManager \<Rightarrow> bool \<times> PeerManager" where
  "removePeer pid pm =
     (Map_has (seenPeers pm) pid, pm\<lparr>seenPeers := Map_delete (seenPeers pm) pid\<rparr>)"

definition hasPeer :: "PeerManager \<Rightarrow> peer_id \<Rightarrow> bool" where
  "hasPeer pm pid = Map_has (seenPeers pm) pid"

definition size_pm :: "PeerManager \<Rightarrow> nat" where
  "size_pm pm = Map_size (seenPeers pm)"

definition incrementSeq :: "PeerManager \<Rightarrow> int \<times> PeerManager" where
  "incrementSeq pm = (mySeq pm + 1, pm\<lparr>mySeq := mySeq pm + 1\<rparr>)"

definition getSeq :: "PeerManager \<Rightarrow> int" where
  "getSeq pm = mySeq pm"

text \<open>
  \<^verbatim>\<open>cleanupStalePeers\<close> and \<^verbatim>\<open>prune\<close> iterate over the live Map and delete from it inside the
  loop. A Map iterator visits the entries in order and is not disturbed by the deletion of
  the entry it is at, so the loop runs over the entries the Map held at the start; the
  Map itself and the counter \<^verbatim>\<open>removed\<close> are the loop state.
\<close>

fun cleanup_loop ::
  "config \<Rightarrow> int \<Rightarrow> (peer_id \<times> peer_data) list \<Rightarrow> (peer_id, peer_data) js_map \<times> nat
     \<Rightarrow> (peer_id, peer_data) js_map \<times> nat" where
  "cleanup_loop cfg now [] (m, removed) = (m, removed)"
| "cleanup_loop cfg now ((pid, d) # rest) (m, removed) =
     (if now - lastSeen d > PEER_TIMEOUT cfg
      then cleanup_loop cfg now rest (Map_delete m pid, removed + 1)
      else cleanup_loop cfg now rest (m, removed))"

definition cleanupStalePeers :: "config \<Rightarrow> int \<Rightarrow> PeerManager \<Rightarrow> nat \<times> PeerManager" where
  "cleanupStalePeers cfg now pm =
     (let (m, removed) = cleanup_loop cfg now (seenPeers pm) (seenPeers pm, 0)
      in (removed, pm\<lparr>seenPeers := m\<rparr>))"

text \<open>
  \<^verbatim>\<open>prune\<close> takes its limit in seconds and divides the age in milliseconds by 1000. The
  quotient of two JavaScript numbers is not an integer in general; the model computes it
  in the reals.
\<close>

fun prune_loop ::
  "real \<Rightarrow> int \<Rightarrow> (peer_id \<times> peer_data) list \<Rightarrow> (peer_id, peer_data) js_map \<times> nat
     \<Rightarrow> (peer_id, peer_data) js_map \<times> nat" where
  "prune_loop maxAge now [] (m, removed) = (m, removed)"
| "prune_loop maxAge now ((pid, d) # rest) (m, removed) =
     (let age = real_of_int (now - lastSeen d) / 1000
      in if age > maxAge
         then prune_loop maxAge now rest (Map_delete m pid, removed + 1)
         else prune_loop maxAge now rest (m, removed))"

definition prune :: "real \<Rightarrow> int \<Rightarrow> PeerManager \<Rightarrow> nat \<times> PeerManager" where
  "prune maxAge now pm =
     (let (m, removed) = prune_loop maxAge now (seenPeers pm) (seenPeers pm, 0)
      in (removed, pm\<lparr>seenPeers := m\<rparr>))"

text \<open>
  The plain objects that travel through the cache file: what \<^verbatim>\<open>toJSON\<close> emits, what
  \<^verbatim>\<open>fromJSON\<close> and \<^verbatim>\<open>loadPeerCache\<close> read and what \<^verbatim>\<open>bootstrapPeers\<close> returns. \<open>None\<close>
  is a field that is absent or \<^verbatim>\<open>null\<close>; the key is a hex string. An element of a parsed
  array may also be \<^verbatim>\<open>null\<close>, on which every property access throws a TypeError. The
  fields have the types of the cache file format (strings, integers); array elements
  and field values of other types are outside the model.
\<close>

record peer =
  p_id :: "string option"
  p_seq :: "int option"
  p_lastSeen :: "int option"
  p_ip :: "string option"
  p_port :: "int option"
  p_key :: "string option"

datatype entry = ENull | EObj peer

datatype js_error = TypeError | SyntaxError | IOError

text \<open>
  \<^verbatim>\<open>toJSON\<close>: one object per entry, in Map order. \<^verbatim>\<open>data.ip || null\<close> and
  \<^verbatim>\<open>data.port || null\<close> turn an empty address and the port \<open>0\<close> into \<^verbatim>\<open>null\<close>. \<open>hex\<close> is
  \<^verbatim>\<open>Buffer.toString('hex')\<close>; a key that is \<^verbatim>\<open>null\<close> stays \<^verbatim>\<open>null\<close>.
\<close>

definition toJSON :: "(buffer \<Rightarrow> string) \<Rightarrow> PeerManager \<Rightarrow> peer list" where
  "toJSON hex pm =
     map (\<lambda>(pid, d).
            \<lparr> p_id = pid, p_seq = Some (seq d), p_lastSeen = Some (lastSeen d),
              p_ip = (case ip d of None \<Rightarrow> None | Some a \<Rightarrow> if a = [] then None else Some a),
              p_port = (case port d of None \<Rightarrow> None | Some n \<Rightarrow> if n = 0 then None else Some n),
              p_key = map_option hex (key d) \<rparr>)
         (seenPeers pm)"

text \<open>
  \<^verbatim>\<open>fromJSON\<close>: \<open>data = None\<close> is an argument that is not an array. \<^verbatim>\<open>peer.seq || 0\<close> and
  \<^verbatim>\<open>peer.lastSeen || Date.now()\<close> replace a falsy value (absent, \<^verbatim>\<open>null\<close> or \<open>0\<close>);
  \<open>now i\<close> is the clock when the element at index \<open>i\<close> is processed. \<open>unhex\<close> is
  \<^verbatim>\<open>Buffer.from(_, 'hex')\<close>, applied to a non-empty key string. A \<^verbatim>\<open>null\<close> element makes
  \<^verbatim>\<open>peer.id\<close> throw: the loop stops there with the entries stored so far.
\<close>

fun fromJSON_loop ::
  "(string \<Rightarrow> buffer) \<Rightarrow> (nat \<Rightarrow> int) \<Rightarrow> nat \<Rightarrow> entry list \<Rightarrow> (peer_id, peer_data) js_map
     \<Rightarrow> js_error option \<times> (peer_id, peer_data) js_map" where
  "fromJSON_loop unhex now i [] m = (None, m)"
| "fromJSON_loop unhex now i (ENull # rest) m = (Some TypeError, m)"
| "fromJSON_loop unhex now i (EObj p # rest) m =
     fromJSON_loop unhex now (i + 1) rest
       (Map_set m (p_id p)
          \<lparr> seq = (case p_seq p of None \<Rightarrow> 0 | Some n \<Rightarrow> n),
            lastSeen = (case p_lastSeen p of None \<Rightarrow> now i
                        | Some t \<Rightarrow> if t = 0 then now i else t),
            key = (case p_key p of None \<Rightarrow> None
                   | Some h \<Rightarrow> if h = [] then None else Some (unhex h)),
            ip = p_ip p, port = p_port p \<rparr>)"

definition fromJSON ::
  "(string \<Rightarrow> buffer) \<Rightarrow> (nat \<Rightarrow> int) \<Rightarrow> entry list option \<Rightarrow> PeerManager
     \<Rightarrow> js_error option \<times> PeerManager" where
  "fromJSON unhex now data pm =
     (case data of
        None \<Rightarrow> (None, pm)
      | Some es \<Rightarrow>
          (let (err, m) = fromJSON_loop unhex now 0 es (seenPeers pm)
           in (err, pm\<lparr>seenPeers := m\<rparr>)))"

text \<open>The directory invariant: no two entries of the Map carry the same id.\<close>

definition unique_ids :: "PeerManager \<Rightarrow> bool" where
  "unique_ids pm = distinct (map fst (seenPeers pm))"

text \<open>
  The loop shape shared by \<^verbatim>\<open>cleanupStalePeers\<close> and \<^verbatim>\<open>prune\<close>, with the staleness test
  as a parameter; used only to reason about both loops at once.
\<close>

fun delete_where ::
  "('k \<times> 'v \<Rightarrow> bool) \<Rightarrow> ('k \<times> 'v) list \<Rightarrow> ('k, 'v) js_map \<times> nat \<Rightarrow> ('k, 'v) js_map \<times> nat" where
  "delete_where P [] (m, removed) = (m, removed)"
| "delete_where P (e # rest) (m, removed) =
     (if P e then delete_where P rest (Map_delete m (fst e), removed + 1)
      else delete_where P rest (m, removed))"

definition timed_out :: "config \<Rightarrow> int \<Rightarrow> peer_id \<times> peer_data \<Rightarrow> bool" where
  "timed_out cfg now e = (now - lastSeen (snd e) > PEER_TIMEOUT cfg)"

definition too_old :: "real \<Rightarrow> int \<Rightarrow> peer_id \<times> peer_data \<Rightarrow> bool" where
  "too_old maxAge now e = (real_of_int (now - lastSeen (snd e)) / 1000 > maxAge)"

section \<open>The world of the bootstrap module\<close>

text \<open>
  \<^verbatim>\<open>bootstrap.js\<close> reads the clock, opens TCP connections, reads and writes the cache file
  and prints to the console. The model makes each of these explicit.

  The environment \<open>env\<close> holds what the process cannot influence: \<open>clock env k\<close> is the
  value of the \<open>k\<close>-th evaluation of \<^verbatim>\<open>Date.now()\<close>, and \<open>reachable env k ip port t\<close> says
  whether the \<open>k\<close>-th connection attempt, made to \<open>ip:port\<close> with timeout \<open>t\<close>, yields a
  socket. It also holds the two functions imported from \<^verbatim>\<open>./feistel\<close>, whose source
  is not available: \<open>createFeistelGenerator env seed i\<close> is the value of the \<open>i\<close>-th
  \<^verbatim>\<open>next()\<close> of the generator made for \<open>seed\<close>, and \<open>ipv4ToString\<close> renders an address.

  The state \<open>world\<close> holds the counters of clock readings, connection attempts and
  \<^verbatim>\<open>generator.next()\<close> calls, the cache file at \<^verbatim>\<open>PEER_CACHE_PATH\<close>, whether that file
  can be written, and the trace of calls and console output so far.
\<close>

datatype json_doc =
    JObject "int option" "int option" "entry list option"
  | JArray "entry list"
  | JNull
  | JScalar

text \<open>
  A parsed cache file. \<open>JObject version timestamp peers\<close> is an object with these three
  properties, \<open>None\<close> for a \<^verbatim>\<open>version\<close> or \<^verbatim>\<open>timestamp\<close> that is absent or \<^verbatim>\<open>null\<close> and for
  a \<^verbatim>\<open>peers\<close> that is not an array; \<open>JArray\<close> is the unversioned format, a bare array;
  \<open>JNull\<close> is the document \<^verbatim>\<open>null\<close>; \<open>JScalar\<close> is a number, string or boolean.
\<close>

datatype cache_file = Missing | Unreadable | Corrupt | Parsed json_doc

text \<open>
  \<open>Missing\<close>: \<^verbatim>\<open>existsSync\<close> is false. \<open>Unreadable\<close>: \<^verbatim>\<open>readFileSync\<close> throws. \<open>Corrupt\<close>:
  \<^verbatim>\<open>JSON.parse\<close> throws. \<open>Parsed d\<close>: the text parses to \<open>d\<close>; \<^verbatim>\<open>JSON.stringify\<close> followed by
  \<^verbatim>\<open>JSON.parse\<close> is the identity on these documents.
\<close>

datatype call =
    LoadPeerCache
  | SavePeerCache "peer list"
  | TryConnectToPeer "string option" "int option" int
  | RetryCachedPeers
  | ScanIPv4Space "32 word" int

datatype message =
    InvalidCacheFormat
  | PrunedStale nat
  | FailedToLoadCache
  | SavedPeers nat
  | FailedToSaveCache
  | NoCachedPeers
  | AttemptingReconnect nat
  | TryingCachedPeer "string option" "int option"
  | ReconnectedToCachedPeer "string option"
  | AllCachedUnreachable
  | StartingScan int int
  | ScanTimeout nat
  | FoundPeer string int nat
  | ScanProgress nat int
  | StartingBootstrap "32 word"
  | DebugMode string int
  | DebugComplete string
  | DebugFailed string
  | CachedComplete "string option"
  | ScanComplete
  | FallbackToDHT

datatype event = Call call | Log message | Warn message

record env =
  clock :: "nat \<Rightarrow> int"
  reachable :: "nat \<Rightarrow> string option \<Rightarrow> int option \<Rightarrow> int \<Rightarrow> bool"
  createFeistelGenerator :: "32 word \<Rightarrow> nat \<Rightarrow> 32 word"
  ipv4ToString :: "32 word \<Rightarrow> string"

record world =
  reads :: nat
  conns :: nat
  nexts :: nat
  cacheFile :: cache_file
  writable :: bool
  events :: "event list"

definition Date_now :: "env \<Rightarrow> world \<Rightarrow> int \<times> world" where
  "Date_now e w = (clock e (reads w), w\<lparr>reads := reads w + 1\<rparr>)"

definition emit :: "event \<Rightarrow> world \<Rightarrow> world" where
  "emit ev w = w\<lparr>events := events w @ [ev]\<rparr>"

section \<open>The peer cache\<close>

text \<open>
  The callback of \<^verbatim>\<open>peers.filter\<close> in \<^verbatim>\<open>loadPeerCache\<close>: the age of \<open>p\<close> in seconds, with
  \<^verbatim>\<open>p.lastSeen || 0\<close> for the time it was seen, compared with \<^verbatim>\<open>PEER_CACHE_MAX_AGE\<close>.
\<close>

definition is_fresh :: "config \<Rightarrow> int \<Rightarrow> peer \<Rightarrow> bool" where
  "is_fresh cfg now p =
     (let age = real_of_int (now - (case p_lastSeen p of None \<Rightarrow> 0 | Some t \<Rightarrow> t)) / 1000
      in age < real_of_int (PEER_CACHE_MAX_AGE cfg))"

fun filter_fresh :: "config \<Rightarrow> int \<Rightarrow> entry list \<Rightarrow> js_error + peer list" where
  "filter_fresh cfg now [] = Inr []"
| "filter_fresh cfg now (ENull # rest) = Inl TypeError"
| "filter_fresh cfg now (EObj p # rest) =
     (case filter_fresh cfg now rest of
        Inl err \<Rightarrow> Inl err
      | Inr ps \<Rightarrow> Inr (if is_fresh cfg now p then p # ps else ps))"

text \<open>
  \<^verbatim>\<open>const peers = data.version ? data.peers : data\<close>, followed by \<^verbatim>\<open>Array.isArray(peers)\<close>:
  the \<^verbatim>\<open>peers\<close> property when \<^verbatim>\<open>version\<close> is truthy (present and not \<open>0\<close>) and the
  document itself otherwise; \<open>None\<close> when what was selected is not an array. On the
  document \<^verbatim>\<open>null\<close> the property access throws. The value of \<^verbatim>\<open>version\<close> is not looked
  at beyond its truthiness.
\<close>

definition selected_peers :: "json_doc \<Rightarrow> js_error + entry list option" where
  "selected_peers data =
     (case data of
        JObject version timestamp ps \<Rightarrow>
          Inr (if version \<noteq> None \<and> version \<noteq> Some 0 then ps else None)
      | JArray es \<Rightarrow> Inr (Some es)
      | JNull \<Rightarrow> Inl TypeError
      | JScalar \<Rightarrow> Inr None)"

text \<open>
  The \<^verbatim>\<open>try\<close> block of \<^verbatim>\<open>loadPeerCache\<close>. A thrown exception is \<open>Inl\<close>, with the world
  as it was when it was thrown.
\<close>

definition loadPeerCache_try ::
  "env \<Rightarrow> config \<Rightarrow> world \<Rightarrow> (js_error \<times> world) + (peer list \<times> world)" where
  "loadPeerCache_try e cfg w =
     (case cacheFile w of
        Missing \<Rightarrow> Inr ([], w)
      | Unreadable \<Rightarrow> Inl (IOError, w)
      | Corrupt \<Rightarrow> Inl (SyntaxError, w)
      | Parsed data \<Rightarrow>
          (case selected_peers data of
             Inl err \<Rightarrow> Inl (err, w)
           | Inr None \<Rightarrow> Inr ([], emit (Warn InvalidCacheFormat) w)
           | Inr (Some es) \<Rightarrow>
               (let (now, w1) = Date_now e w
                in case filter_fresh cfg now es of
                     Inl err \<Rightarrow> Inl (err, w1)
                   | Inr fresh \<Rightarrow>
                       Inr (fresh,
                            if length fresh < length es
                            then emit (Log (PrunedStale (length es - length fresh))) w1
                            else w1))))"

text \<open>
  \<^verbatim>\<open>loadPeerCache\<close>: the \<^verbatim>\<open>catch\<close> clause turns every exception of the block into a
  warning and the empty array.
\<close>

definition loadPeerCache :: "env \<Rightarrow> config \<Rightarrow> world \<Rightarrow> peer list \<times> world" where
  "loadPeerCache e cfg w0 =
     (let w = emit (Call LoadPeerCache) w0
      in if \<not> PEER_CACHE_ENABLED cfg then ([], w)
         else case loadPeerCache_try e cfg w of
                Inr r \<Rightarrow> r
              | Inl (err, w1) \<Rightarrow> ([], emit (Warn FailedToLoadCache) w1))"

text \<open>
  \<^verbatim>\<open>savePeerCache\<close>: the document is built (reading the clock) and written; a failing
  write is caught and reported.
\<close>

definition savePeerCache :: "env \<Rightarrow> config \<Rightarrow> peer list \<Rightarrow> world \<Rightarrow> world" where
  "savePeerCache e cfg peers w0 =
     (let w = emit (Call (SavePeerCache peers)) w0
      in if \<not> PEER_CACHE_ENABLED cfg then w
         else (let (now, w1) = Date_now e w;
                   data = JObject (Some 1) (Some now) (Some (map EObj (take 100 peers)))
               in if writable w1
                  then emit (Log (SavedPeers (length peers))) (w1\<lparr>cacheFile := Parsed data\<rparr>)
                  else emit (Warn FailedToSaveCache) w1))"

section \<open>Connections and the cache replay\<close>

text \<open>
  \<^verbatim>\<open>tryConnectToPeer\<close> resolves to a socket or to \<^verbatim>\<open>null\<close>; the model returns whether it
  was a socket. Every caller destroys the socket at once, which has no effect here. The
  outcome is the environment's for every argument; arguments that \<^verbatim>\<open>net.createConnection\<close>
  refuses to take, such as an absent port, are outside the model.
\<close>

definition tryConnectToPeer ::
  "env \<Rightarrow> string option \<Rightarrow> int option \<Rightarrow> int \<Rightarrow> world \<Rightarrow> bool \<times> world" where
  "tryConnectToPeer e addr prt timeout w0 =
     (let w = emit (Call (TryConnectToPeer addr prt timeout)) w0
      in (reachable e (conns w) addr prt timeout, w\<lparr>conns := conns w + 1\<rparr>))"

fun retry_loop :: "env \<Rightarrow> peer list \<Rightarrow> world \<Rightarrow> peer option \<times> world" where
  "retry_loop e [] w = (None, emit (Log AllCachedUnreachable) w)"
| "retry_loop e (p # rest) w =
     (let w1 = emit (Log (TryingCachedPeer (p_ip p) (p_port p))) w;
          (socket, w2) = tryConnectToPeer e (p_ip p) (p_port p) 500 w1
      in if socket then (Some p, emit (Log (ReconnectedToCachedPeer (p_ip p))) w2)
         else retry_loop e rest w2)"

definition retryCachedPeers :: "env \<Rightarrow> config \<Rightarrow> world \<Rightarrow> peer option \<times> world" where
  "retryCachedPeers e cfg w0 =
     (let w = emit (Call RetryCachedPeers) w0;
          (cached, w1) = loadPeerCache e cfg w
      in if length cached = 0 then (None, emit (Log NoCachedPeers) w1)
         else retry_loop e cached (emit (Log (AttemptingReconnect (length cached))) w1))"

section \<open>The address scan\<close>

text \<open>
  \<^verbatim>\<open>shouldSkipAddress\<close> works on \<^verbatim>\<open>ip.split('.').map(Number)\<close>. \<open>split_on\<close> is \<^verbatim>\<open>split\<close> with a
  one-character separator. \<open>Number_of\<close> is \<^verbatim>\<open>Number\<close> on strings, for the strings that
  a dotted quad is made of: the empty string is \<open>0\<close>, a string of decimal digits is its
  value, and anything else is taken to be \<^verbatim>\<open>NaN\<close> (\<open>None\<close>). A part that is \<^verbatim>\<open>NaN\<close> or
  beyond the end of the array (\<^verbatim>\<open>undefined\<close>) fails every comparison.
\<close>

primrec split_on :: "char \<Rightarrow> string \<Rightarrow> string list" where
  "split_on c [] = [[]]"
| "split_on c (x # xs) =
     (if x = c then [] # split_on c xs
      else (case split_on c xs of [] \<Rightarrow> [[x]] | p # ps \<Rightarrow> (x # p) # ps))"

definition digit_of :: "char \<Rightarrow> nat option" where
  "digit_of c =
     (let n = (of_char c :: nat) in if 48 \<le> n \<and> n \<le> 57 then Some (n - 48) else None)"

fun digits_value :: "nat \<Rightarrow> string \<Rightarrow> nat option" where
  "digits_value acc [] = Some acc"
| "digits_value acc (c # cs) =
     (case digit_of c of None \<Rightarrow> None | Some d \<Rightarrow> digits_value (10 * acc + d) cs)"

definition Number_of :: "string \<Rightarrow> nat option" where
  "Number_of s = digits_value 0 s"

definition part :: "nat option list \<Rightarrow> nat \<Rightarrow> nat option" where
  "part parts i = (if i < length parts then parts ! i else None)"

definition part_eq :: "nat option list \<Rightarrow> nat \<Rightarrow> nat \<Rightarrow> bool" where
  "part_eq parts i n = (part parts i = Some n)"

definition part_between :: "nat option list \<Rightarrow> nat \<Rightarrow> nat \<Rightarrow> nat \<Rightarrow> bool" where
  "part_between parts i lo hi = (case part parts i of None \<Rightarrow> False | Some v \<Rightarrow> lo \<le> v \<and> v \<le> hi)"

definition part_ge :: "nat option list \<Rightarrow> nat \<Rightarrow> nat \<Rightarrow> bool" where
  "part_ge parts i lo = (case part parts i of None \<Rightarrow> False | Some v \<Rightarrow> lo \<le> v)"

definition shouldSkipAddress :: "string \<Rightarrow> bool" where
  "shouldSkipAddress addr =
     (let parts = map Number_of (split_on CHR ''.'' addr)
      in if part_eq parts 0 127 then True
         else if part_eq parts 0 10 then True
         else if part_eq parts 0 172 \<and> part_between parts 1 16 31 then True
         else if part_eq parts 0 192 \<and> part_eq parts 1 168 then True
         else if part_eq parts 0 169 \<and> part_eq parts 1 254 then True
         else if part_between parts 0 224 239 then True
         else if part_ge parts 0 240 then True
         else False)"

definition maxAttempts :: nat where
  "maxAttempts = 100000"

text \<open>The object literal \<^verbatim>\<open>{ ip, port }\<close> that a scan or debug connection returns.\<close>

definition address_object :: "string \<Rightarrow> int \<Rightarrow> peer" where
  "address_object addr prt =
     \<lparr> p_id = None, p_seq = None, p_lastSeen = None, p_ip = Some addr, p_port = Some prt,
       p_key = None \<rparr>"

text \<open>
  The body of the \<^verbatim>\<open>while\<close> loop of \<^verbatim>\<open>scanIPv4Space\<close>, for the current value of
  \<^verbatim>\<open>attempts\<close> and the position \<open>g\<close> of the generator. The result \<open>Some r\<close> is
  \<^verbatim>\<open>return r\<close>; \<open>None\<close> is the end of the round, by \<^verbatim>\<open>continue\<close> or by reaching the end of
  the body. Each round reads the clock and, unless the deadline has passed, draws one
  candidate. On every path that ends the round \<^verbatim>\<open>attempts\<close> has been incremented exactly
  once, before the tests on it: a connection is tried when the new value is a multiple
  of 100, and the progress line, which reads the clock again, is printed when it is a
  multiple of 10000.
\<close>

definition scan_body ::
  "env \<Rightarrow> config \<Rightarrow> (nat \<Rightarrow> 32 word) \<Rightarrow> int \<Rightarrow> int \<Rightarrow> nat \<Rightarrow> nat \<Rightarrow> world
     \<Rightarrow> peer option option \<times> world" where
  "scan_body e cfg generator startTime timeout attempts g w =
     (let (now, w1) = Date_now e w
      in if now - startTime > timeout
         then (Some None, emit (Log (ScanTimeout attempts)) w1)
         else (let address = generator g;
                   w2 = w1\<lparr>nexts := nexts w1 + 1\<rparr>;
                   addr = ipv4ToString e address
               in if shouldSkipAddress addr then (None, w2)
                  else if (attempts + 1) mod 100 \<noteq> 0 then (None, w2)
                  else (let (socket, w3) =
                              tryConnectToPeer e (Some addr) (Some (SCAN_PORT cfg)) 500 w2
                        in if socket
                           then (Some (Some (address_object addr (SCAN_PORT cfg))),
                                 emit (Log (FoundPeer addr (SCAN_PORT cfg) (attempts + 1))) w3)
                           else if (attempts + 1) mod 10000 = 0
                           then (let (t, w4) = Date_now e w3
                                 in (None,
                                     emit (Log (ScanProgress (attempts + 1) (t - startTime))) w4))
                           else (None, w3))))"

text \<open>
  The loop: while \<^verbatim>\<open>attempts < maxAttempts\<close>, run the body; a round that ends without
  \<^verbatim>\<open>return\<close> leaves \<^verbatim>\<open>attempts\<close> and the generator one step further. When the condition
  fails the function returns \<^verbatim>\<open>null\<close>.
\<close>

function scan_loop ::
  "env \<Rightarrow> config \<Rightarrow> (nat \<Rightarrow> 32 word) \<Rightarrow> int \<Rightarrow> int \<Rightarrow> nat \<Rightarrow> nat \<Rightarrow> world
     \<Rightarrow> peer option \<times> world" where
  "scan_loop e cfg generator startTime timeout attempts g w =
     (if attempts < maxAttempts then
        (case scan_body e cfg generator startTime timeout attempts g w of
           (Some r, w') \<Rightarrow> (r, w')
         | (None, w') \<Rightarrow> scan_loop e cfg generator startTime timeout (attempts + 1) (g + 1) w')
      else (None, w))"
  by pat_completeness auto
termination
  by (relation "measure (\<lambda>(e, cfg, generator, startTime, timeout, attempts, g, w).
                  maxAttempts - attempts)") auto

definition scanIPv4Space :: "env \<Rightarrow> config \<Rightarrow> 32 word \<Rightarrow> int \<Rightarrow> world \<Rightarrow> peer option \<times> world" where
  "scanIPv4Space e cfg seed timeout w0 =
     (let w = emit (Call (ScanIPv4Space seed timeout)) w0;
          generator = createFeistelGenerator e seed;
          (startTime, w1) = Date_now e w;
          w2 = emit (Log (StartingScan (SCAN_PORT cfg) timeout)) w1
      in scan_loop e cfg generator startTime timeout 0 0 w2)"

section \<open>The orchestrator\<close>

text \<open>
  The debug block at the head of \<^verbatim>\<open>bootstrapPeers\<close>: \<open>Some\<close> peer when it returns from the
  function, \<open>None\<close> when control falls through to the cache replay. An empty string is
  falsy, like \<^verbatim>\<open>null\<close>.
\<close>

definition debug_phase :: "env \<Rightarrow> config \<Rightarrow> world \<Rightarrow> peer option \<times> world" where
  "debug_phase e cfg w =
     (case BOOTSTRAP_PEER_IP cfg of
        None \<Rightarrow> (None, w)
      | Some addr \<Rightarrow>
          if addr = [] then (None, w)
          else (let w1 = emit (Log (DebugMode addr (SCAN_PORT cfg))) w;
                    (socket, w2) = tryConnectToPeer e (Some addr) (Some (SCAN_PORT cfg)) 2000 w1
                in if socket
                   then (Some (address_object addr (SCAN_PORT cfg)), emit (Log (DebugComplete addr)) w2)
                   else (None, emit (Log (DebugFailed addr)) w2)))"

definition bootstrapPeers :: "env \<Rightarrow> config \<Rightarrow> 32 word \<Rightarrow> world \<Rightarrow> peer option \<times> world" where
  "bootstrapPeers e cfg seed w0 =
     (let w = emit (Log (StartingBootstrap seed)) w0
      in case debug_phase e cfg w of
           (Some p, w1) \<Rightarrow> (Some p, w1)
         | (None, w1) \<Rightarrow>
             (case retryCachedPeers e cfg w1 of
                (Some cachedPeer, w2) \<Rightarrow>
                  (Some cachedPeer, emit (Log (CachedComplete (p_ip cachedPeer))) w2)
              | (None, w2) \<Rightarrow>
                  (case scanIPv4Space e cfg seed (BOOTSTRAP_TIMEOUT cfg) w2 of
                     (Some scannedPeer, w3) \<Rightarrow>
                       (let (now, w4) = Date_now e w3;
                            p = scannedPeer\<lparr>p_id := None, p_lastSeen := Some now\<rparr>;
                            w5 = savePeerCache e cfg [p] w4
                        in (Some p, emit (Log ScanComplete) w5))
                   | (None, w3) \<Rightarrow> (None, emit (Log FallbackToDHT) w3))))"

section \<open>The address-space enumerator\<close>

text \<open>
  The module \<^verbatim>\<open>./feistel\<close> is not among the sources; the enumerator below follows the
  specification: a balanced Feistel network on 32-bit blocks, keyed by the seed, applied
  to a counter that starts at 0. The specification fixes neither the round function nor
  the number of rounds, so both are parameters: \<open>F k seed\<close> is the round function of
  round \<open>k\<close>, on 16-bit halves.
\<close>

type_synonym half = "16 word"

text \<open>Modelled from the spec: the two 16-bit halves of a 32-bit block (absent \<^verbatim>\<open>feistel.js\<close>).\<close>

definition split_block :: "32 word \<Rightarrow> half \<times> half" where
  "split_block x = (ucast (drop_bit 16 x), ucast x)"

definition join_block :: "half \<times> half \<Rightarrow> 32 word" where
  "join_block lr = push_bit 16 (ucast (fst lr)) OR ucast (snd lr)"

text \<open>
  Modelled from the spec: one round of a balanced Feistel network (absent \<^verbatim>\<open>feistel.js\<close>).
  The right half moves to the left; the left half, mixed with the round function of the
  right half, moves to the right.
\<close>

definition feistel_round :: "(half \<Rightarrow> half) \<Rightarrow> half \<times> half \<Rightarrow> half \<times> half" where
  "feistel_round f lr = (snd lr, fst lr XOR f (snd lr))"

text \<open>Modelled from the spec: rounds \<open>0\<close> to \<open>n - 1\<close> in this order (absent \<^verbatim>\<open>feistel.js\<close>).\<close>

primrec feistel_rounds ::
  "(nat \<Rightarrow> 32 word \<Rightarrow> half \<Rightarrow> half) \<Rightarrow> 32 word \<Rightarrow> nat \<Rightarrow> half \<times> half \<Rightarrow> half \<times> half" where
  "feistel_rounds F seed 0 lr = lr"
| "feistel_rounds F seed (Suc n) lr = feistel_round (F n seed) (feistel_rounds F seed n lr)"

text \<open>
  Modelled from the spec: the encryption of one counter value (absent \<^verbatim>\<open>feistel.js\<close>).
\<close>

definition feistel_encrypt ::
  "(nat \<Rightarrow> 32 word \<Rightarrow> half \<Rightarrow> half) \<Rightarrow> nat \<Rightarrow> 32 word \<Rightarrow> 32 word \<Rightarrow> 32 word" where
  "feistel_encrypt F rounds seed x = join_block (feistel_rounds F seed rounds (split_block x))"

text \<open>
  Modelled from the spec: the enumerator, "an explicit struct holding the Feistel key and
  a counter, with a \<^verbatim>\<open>next() -> address\<close> method" (absent \<^verbatim>\<open>createFeistelGenerator\<close>). Each
  call encrypts the counter and increments it. After \<open>2^32\<close> calls the sequence is
  exhausted; of the two behaviours the specification allows there, this is the failing
  one: \<open>next_address\<close> returns \<open>None\<close>, the \<^verbatim>\<open>ExhaustedError\<close>, and leaves the state alone.
\<close>

record enumerator =
  feistel_key :: "32 word"
  counter :: nat

definition create_enumerator :: "32 word \<Rightarrow> enumerator" where
  "create_enumerator seed = \<lparr> feistel_key = seed, counter = 0 \<rparr>"

definition next_address ::
  "(nat \<Rightarrow> 32 word \<Rightarrow> half \<Rightarrow> half) \<Rightarrow> nat \<Rightarrow> enumerator \<Rightarrow> 32 word option \<times> enumerator" where
  "next_address F rounds en =
     (if counter en < 2 ^ 32
      then (Some (feistel_encrypt F rounds (feistel_key en) (word_of_nat (counter en))),
            en\<lparr>counter := counter en + 1\<rparr>)
      else (None, en))"

text \<open>
  Modelled from the spec: the \<open>i\<close>-th output of the enumerator for a seed, counting from
  \<open>0\<close>: the result of \<open>next_address\<close> after \<open>i\<close> earlier calls.
\<close>

primrec after_calls ::
  "(nat \<Rightarrow> 32 word \<Rightarrow> half \<Rightarrow> half) \<Rightarrow> nat \<Rightarrow> nat \<Rightarrow> enumerator \<Rightarrow> enumerator" where
  "after_calls F rounds 0 en = en"
| "after_calls F rounds (Suc i) en = snd (next_address F rounds (after_calls F rounds i en))"

definition nth_output ::
  "(nat \<Rightarrow> 32 word \<Rightarrow> half \<Rightarrow> half) \<Rightarrow> nat \<Rightarrow> 32 word \<Rightarrow> nat \<Rightarrow> 32 word option" where
  "nth_output F rounds seed i =
     fst (next_address F rounds (after_calls F rounds i (create_enumerator seed)))"

text \<open>The inverse of one round, used only to show that a round is a bijection.\<close>

definition feistel_unround :: "(half \<Rightarrow> half) \<Rightarrow> half \<times> half \<Rightarrow> half \<times> half" where
  "feistel_unround f lr = (snd lr XOR f (fst lr), fst lr)"

section \<open>Reading the trace\<close>

text \<open>
  The peer lists handed to \<^verbatim>\<open>savePeerCache\<close>, in the order of the calls.
\<close>

fun saved :: "event \<Rightarrow> peer list list" where
  "saved (Call (SavePeerCache ps)) = [ps]"
| "saved ev = []"

definition saves :: "event list \<Rightarrow> peer list list" where
  "saves evs = concat (map saved evs)"

fun is_save :: "event \<Rightarrow> bool" where
  "is_save (Call (SavePeerCache ps)) = True"
| "is_save ev = False"

text \<open>
  The events that mark the start of the cache replay (the calls of \<^verbatim>\<open>retryCachedPeers\<close> and
  \<^verbatim>\<open>loadPeerCache\<close>) and of the address scan (the call of \<^verbatim>\<open>scanIPv4Space\<close>).
\<close>

fun is_cache_start :: "event \<Rightarrow> bool" where
  "is_cache_start (Call RetryCachedPeers) = True"
| "is_cache_start (Call LoadPeerCache) = True"
| "is_cache_start ev = False"

fun is_scan_start :: "event \<Rightarrow> bool" where
  "is_scan_start (Call (ScanIPv4Space seed timeout)) = True"
| "is_scan_start ev = False"

text \<open>
  \<open>only_emits A w w'\<close>: the trace of \<open>w'\<close> is the trace of \<open>w\<close> followed by events that all
  satisfy \<open>A\<close>. \<open>plain\<close> events start no phase and save nothing; \<open>no_scan_no_save\<close> events
  may belong to the cache replay.
\<close>

definition only_emits :: "(event \<Rightarrow> bool) \<Rightarrow> world \<Rightarrow> world \<Rightarrow> bool" where
  "only_emits A w w' = (\<exists>evs. events w' = events w @ evs \<and> list_all A evs)"

definition plain :: "event \<Rightarrow> bool" where
  "plain ev = (\<not> is_cache_start ev \<and> \<not> is_scan_start ev \<and> \<not> is_save ev)"

definition no_scan_no_save :: "event \<Rightarrow> bool" where
  "no_scan_no_save ev = (\<not> is_scan_start ev \<and> \<not> is_save ev)"

text \<open>
  The result of each phase of \<^verbatim>\<open>bootstrapPeers\<close> and the world it leaves, when the phases
  run one after the other from \<open>w\<close>: the debug block, then \<^verbatim>\<open>retryCachedPeers\<close>, then
  \<^verbatim>\<open>scanIPv4Space\<close>.
\<close>

definition after_start :: "32 word \<Rightarrow> world \<Rightarrow> world" where
  "after_start seed w = emit (Log (StartingBootstrap seed)) w"

definition debug_result :: "env \<Rightarrow> config \<Rightarrow> 32 word \<Rightarrow> world \<Rightarrow> peer option" where
  "debug_result e cfg seed w = fst (debug_phase e cfg (after_start seed w))"

definition after_debug :: "env \<Rightarrow> config \<Rightarrow> 32 word \<Rightarrow> world \<Rightarrow> world" where
  "after_debug e cfg seed w = snd (debug_phase e cfg (after_start seed w))"

definition cache_result :: "env \<Rightarrow> config \<Rightarrow> 32 word \<Rightarrow> world \<Rightarrow> peer option" where
  "cache_result e cfg seed w = fst (retryCachedPeers e cfg (after_debug e cfg seed w))"

definition after_cache :: "env \<Rightarrow> config \<Rightarrow> 32 word \<Rightarrow> world \<Rightarrow> world" where
  "after_cache e cfg seed w = snd (retryCachedPeers e cfg (after_debug e cfg seed w))"

definition scan_result :: "env \<Rightarrow> config \<Rightarrow> 32 word \<Rightarrow> world \<Rightarrow> peer option" where
  "scan_result e cfg seed w =
     fst (scanIPv4Space e cfg seed (BOOTSTRAP_TIMEOUT cfg) (after_cache e cfg seed w))"

definition after_scan :: "env \<Rightarrow> config \<Rightarrow> 32 word \<Rightarrow> world \<Rightarrow> world" where
  "after_scan e cfg seed w =
     snd (scanIPv4Space e cfg seed (BOOTSTRAP_TIMEOUT cfg) (after_cache e cfg seed w))"

section \<open>Concrete directories and configurations\<close>

text \<open>
  A directory filled by two calls of \<^verbatim>\<open>addOrUpdatePeer\<close> that no \<^verbatim>\<open>canAcceptPeer\<close> guarded,
  in a process started with \<^verbatim>\<open>MAX_PEERS=1\<close>.
\<close>

definition over_capacity :: PeerManager where
  "over_capacity =
     snd (addOrUpdatePeer 2 (Some ''b'') 7 None
       (snd (addOrUpdatePeer 1 (Some ''a'') 5 None constructor)))"

definition capacity_one :: config where
  "capacity_one = default_config\<lparr>MAX_PEERS := 1\<rparr>"

text \<open>Three peers last seen 5, 20 and 61 seconds before the time \<open>100000\<close>.\<close>

definition three_ages :: PeerManager where
  "three_ages = \<lparr> seenPeers =
      [(Some ''a'', \<lparr> seq = 1, lastSeen = 95000, key = None, ip = None, port = None \<rparr>),
       (Some ''b'', \<lparr> seq = 1, lastSeen = 80000, key = None, ip = None, port = None \<rparr>),
       (Some ''c'', \<lparr> seq = 1, lastSeen = 39000, key = None, ip = None, port = None \<rparr>)],
      mySeq = 0 \<rparr>"

text \<open>A cache array that names the same id twice.\<close>

definition dup_cache :: "entry list" where
  "dup_cache =
     [EObj \<lparr> p_id = Some ''a'', p_seq = Some 4, p_lastSeen = Some 10, p_ip = None,
             p_port = None, p_key = None \<rparr>,
      EObj \<lparr> p_id = Some ''a'', p_seq = Some 2, p_lastSeen = None, p_ip = None,
             p_port = None, p_key = None \<rparr>]"

text \<open>A round function to run the enumerator with.\<close>

definition mix :: "nat \<Rightarrow> 32 word \<Rightarrow> half \<Rightarrow> half" where
  "mix k seed x = x * 40503 + ucast seed + word_of_nat k"

section \<open>Concrete environments and worlds\<close>

text \<open>
  A process with the peer cache enabled, and one that also names a debug peer.
\<close>

definition cache_on :: config where
  "cache_on = default_config\<lparr>PEER_CACHE_ENABLED := True\<rparr>"

definition debug_config :: config where
  "debug_config = cache_on\<lparr>BOOTSTRAP_PEER_IP := Some ''203.0.113.9''\<rparr>"

text \<open>Two peers seen one and two seconds before the time \<open>6000\<close>.\<close>

definition fresh_peer :: peer where
  "fresh_peer = \<lparr> p_id = Some ''n1'', p_seq = None, p_lastSeen = Some 5000,
                   p_ip = Some ''203.0.113.9'', p_port = Some 3000, p_key = None \<rparr>"

definition older_peer :: peer where
  "older_peer = \<lparr> p_id = Some ''n2'', p_seq = None, p_lastSeen = Some 4000,
                   p_ip = Some ''198.51.100.7'', p_port = Some 3000, p_key = None \<rparr>"

text \<open>
  An environment whose clock stands at \<open>6000\<close>, in which no connection succeeds and every
  candidate is rendered as \<^verbatim>\<open>8.8.8.8\<close>; and the same with every connection succeeding.
\<close>

definition quiet_env :: env where
  "quiet_env = \<lparr> clock = (\<lambda>k. 6000), reachable = (\<lambda>k a p t. False),
                 createFeistelGenerator = (\<lambda>seed i. word_of_nat i),
                 ipv4ToString = (\<lambda>a. ''8.8.8.8'') \<rparr>"

definition open_env :: env where
  "open_env = quiet_env\<lparr>reachable := (\<lambda>k a p t. True)\<rparr>"

text \<open>
  A world at process start without a cache file; one whose cache file was written by
  \<^verbatim>\<open>savePeerCache\<close>; and one whose cache file carries the version 2.
\<close>

definition fresh_world :: world where
  "fresh_world = \<lparr> reads = 0, conns = 0, nexts = 0, cacheFile = Missing, writable = True,
                   events = [] \<rparr>"

definition cached_world :: world where
  "cached_world =
     fresh_world\<lparr>cacheFile := Parsed (JObject (Some 1) (Some 5500) (Some [EObj fresh_peer]))\<rparr>"

definition version_2_world :: world where
  "version_2_world =
     fresh_world\<lparr>cacheFile := Parsed (JObject (Some 2) (Some 5500) (Some [EObj fresh_peer]))\<rparr>"

text \<open>The peer that the scan finds in \<open>open_env\<close>, as \<^verbatim>\<open>bootstrapPeers\<close> completes it.\<close>

definition found_peer :: peer where
  "found_peer = \<lparr> p_id = None, p_seq = None, p_lastSeen = Some 6000,
                   p_ip = Some ''8.8.8.8'', p_port = Some 3000, p_key = None \<rparr>"

section \<open>Facts about the Map model\<close>

lemma Map_get_set: "Map_get (Map_set m k v) k' = (if k' = k then Some v else Map_get m k')"
  by (induction m) (auto simp: Map_get_def)

lemma keys_Map_set: "fst ` set (Map_set m k v) = insert k (fst ` set m)"
  by (induction m) auto

lemma Map_has_set: "Map_has (Map_set m k v) k' = (k' = k \<or> Map_has m k')"
  by (simp add: Map_has_def keys_Map_set)

lemma map_fst_Map_set:
  "map fst (Map_set m k v) = (if k \<in> fst ` set m then map fst m else map fst m @ [k])"
  by (induction m) auto

lemma distinct_Map_set: "distinct (map fst m) \<Longrightarrow> distinct (map fst (Map_set m k v))"
  by (simp add: map_fst_Map_set)

lemma Map_size_set:
  "Map_size (Map_set m k v) = (if Map_has m k then Map_size m else Suc (Map_size m))"
  by (induction m) (auto simp: Map_size_def Map_has_def)

lemma filter_other_keys: "k \<notin> fst ` set m \<Longrightarrow> filter (\<lambda>e. fst e \<noteq> k) m = m"
  by (induction m) auto

lemma Map_delete_filter:
  "distinct (map fst m) \<Longrightarrow> Map_delete m k = filter (\<lambda>e. fst e \<noteq> k) m"
  by (induction m) (auto simp: filter_other_keys)

lemma distinct_Map_delete: "distinct (map fst m) \<Longrightarrow> distinct (map fst (Map_delete m k))"
  by (simp add: Map_delete_filter distinct_map_filter)

lemma Map_has_iff_get: "Map_has m k \<longleftrightarrow> Map_get m k \<noteq> None"
  by (simp add: Map_has_def Map_get_def map_of_eq_None_iff)

lemma unique_entry:
  "distinct (map fst m) \<Longrightarrow> e \<in> set m \<Longrightarrow> e' \<in> set m \<Longrightarrow> fst e = fst e' \<Longrightarrow> e = e'"
  by (metis eq_key_imp_eq_value prod.collapse)

section \<open>The eviction loops\<close>

lemma cleanup_loop_delete_where:
  "cleanup_loop cfg now es (m, r) = delete_where (timed_out cfg now) es (m, r)"
  by (induction es arbitrary: m r) (auto simp: timed_out_def)

lemma prune_loop_delete_where:
  "prune_loop maxAge now es (m, r) = delete_where (too_old maxAge now) es (m, r)"
  by (induction es arbitrary: m r) (auto simp: too_old_def Let_def)

lemma delete_where_filter:
  "distinct (map fst m) \<Longrightarrow>
   delete_where P es (m, r) =
     (filter (\<lambda>e. fst e \<notin> fst ` set (filter P es)) m, r + length (filter P es))"
proof (induction es arbitrary: m r)
  case Nil
  then show ?case by simp
next
  case (Cons e es)
  show ?case
  proof (cases "P e")
    case True
    have dd: "distinct (map fst (Map_delete m (fst e)))"
      using Cons.prems by (rule distinct_Map_delete)
    have "delete_where P (e # es) (m, r) = delete_where P es (Map_delete m (fst e), r + 1)"
      using True by simp
    also have "\<dots> = (filter (\<lambda>x. fst x \<notin> fst ` set (filter P es)) (Map_delete m (fst e)),
                     r + 1 + length (filter P es))"
      by (rule Cons.IH [OF dd])
    finally show ?thesis
      using True Cons.prems by (auto simp: Map_delete_filter intro!: filter_cong)
  next
    case False
    then show ?thesis
      using Cons.IH [OF Cons.prems, of r] by simp
  qed
qed

lemma filter_by_stale_keys:
  assumes "distinct (map fst m)"
  shows "filter (\<lambda>e. fst e \<notin> fst ` set (filter P m)) m = filter (\<lambda>e. \<not> P e) m"
proof (rule filter_cong [OF refl])
  fix e assume e: "e \<in> set m"
  show "(fst e \<notin> fst ` set (filter P m)) = (\<not> P e)"
    using unique_entry [OF assms e] e by auto
qed

lemma delete_where_self:
  "distinct (map fst m) \<Longrightarrow>
   delete_where P m (m, 0) = (filter (\<lambda>e. \<not> P e) m, length (filter P m))"
  using delete_where_filter [of m P m 0] filter_by_stale_keys [of m P] by simp

lemma fromJSON_loop_distinct:
  "distinct (map fst m) \<Longrightarrow> distinct (map fst (snd (fromJSON_loop unhex now i es m)))"
proof (induction es arbitrary: m i)
  case Nil
  then show ?case by simp
next
  case (Cons e es)
  then show ?case by (cases e) (simp_all add: distinct_Map_set)
qed

section \<open>Properties of the peer directory\<close>

lemma at_most_one_entry:
  "distinct (map fst m) \<Longrightarrow> length (filter (\<lambda>e. fst e = k) m) \<le> 1"
  by (induction m) (auto simp: filter_empty_conv image_iff)

lemma cleanup_loop_result:
  assumes "distinct (map fst m)"
  shows "cleanup_loop cfg now m (m, 0)
           = (filter (\<lambda>e. \<not> timed_out cfg now e) m, length (filter (timed_out cfg now) m))"
  by (simp only: cleanup_loop_delete_where delete_where_self [OF assms])

lemma prune_loop_result:
  assumes "distinct (map fst m)"
  shows "prune_loop maxAge now m (m, 0)
           = (filter (\<lambda>e. \<not> too_old maxAge now e) m, length (filter (too_old maxAge now) m))"
  by (simp only: prune_loop_delete_where delete_where_self [OF assms])

text \<open>
  Claim C10. \<^verbatim>\<open>addOrUpdatePeer\<close> stores the given sequence number and the current time
  under the id whatever was stored before, so also when the new sequence number is
  smaller than the stored one; it has no failing branch, and its result only says
  whether the id was new.
\<close>

theorem addOrUpdatePeer_overwrites:
  "getPeer (snd (addOrUpdatePeer now pid sq k pm)) pid
     = Some \<lparr> seq = sq, lastSeen = now, key = k, ip = None, port = None \<rparr> \<and>
   fst (addOrUpdatePeer now pid sq k pm) = (\<not> hasPeer pm pid)"
  by (simp add: getPeer_def addOrUpdatePeer_def Let_def Map_get_set hasPeer_def Map_has_iff_get)

text \<open>
  Claim C2, as stated, at a concrete directory: with capacity 1 and two tracked peers a
  new id is denied although the count does not equal the capacity.
\<close>

theorem canAcceptPeer_denies_above_capacity:
  "\<not> hasPeer over_capacity (Some ''c'') \<and>
   \<not> canAcceptPeer capacity_one over_capacity (Some ''c'') \<and>
   int (size_pm over_capacity) \<noteq> MAX_PEERS capacity_one"
  by (simp add: over_capacity_def capacity_one_def default_config_def addOrUpdatePeer_def
      constructor_def hasPeer_def canAcceptPeer_def size_pm_def Map_has_def Map_size_def Let_def)

text \<open>
  Claim C2, amended. \<^verbatim>\<open>canAcceptPeer\<close> is true exactly when the id is present or the
  number of tracked peers is below \<^verbatim>\<open>MAX_PEERS\<close>; it denies a new id exactly when the count
  has reached or passed the capacity; \<^verbatim>\<open>addOrUpdatePeer\<close> of a present id stores the new
  record and leaves the count as it was, whatever the capacity.
\<close>

theorem canAcceptPeer_iff:
  "(canAcceptPeer cfg pm pid \<longleftrightarrow> hasPeer pm pid \<or> int (size_pm pm) < MAX_PEERS cfg) \<and>
   (\<not> hasPeer pm pid \<longrightarrow>
      (\<not> canAcceptPeer cfg pm pid \<longleftrightarrow> MAX_PEERS cfg \<le> int (size_pm pm))) \<and>
   (hasPeer pm pid \<longrightarrow>
      fst (addOrUpdatePeer now pid sq k pm) = False \<and>
      getPeer (snd (addOrUpdatePeer now pid sq k pm)) pid
        = Some \<lparr> seq = sq, lastSeen = now, key = k, ip = None, port = None \<rparr> \<and>
      size_pm (snd (addOrUpdatePeer now pid sq k pm)) = size_pm pm)"
  by (auto simp: canAcceptPeer_def hasPeer_def size_pm_def addOrUpdatePeer_def Let_def
      getPeer_def Map_get_set Map_size_set Map_has_iff_get)

theorem canAcceptPeer_iff_witness:
  "\<not> hasPeer over_capacity (Some ''c'') \<and> hasPeer over_capacity (Some ''a'') \<and>
   \<not> canAcceptPeer capacity_one over_capacity (Some ''c'') \<and>
   canAcceptPeer capacity_one over_capacity (Some ''a'') \<and>
   size_pm (snd (addOrUpdatePeer 9 (Some ''a'') 3 None over_capacity)) = 2"
  using canAcceptPeer_iff [of capacity_one over_capacity "Some ''c''" 9 3 None]
        canAcceptPeer_iff [of capacity_one over_capacity "Some ''a''" 9 3 None]
  by (simp add: over_capacity_def capacity_one_def default_config_def addOrUpdatePeer_def
      constructor_def hasPeer_def size_pm_def Map_has_def Map_size_def Let_def)

text \<open>
  Claim C3. On a directory with one entry per id, \<^verbatim>\<open>cleanupStalePeers\<close> keeps exactly the
  entries whose age is at most \<^verbatim>\<open>PEER_TIMEOUT\<close> milliseconds, in their order, and returns
  the number of entries whose age exceeds it; \<^verbatim>\<open>prune\<close> does the same for a limit given in
  seconds.
\<close>

theorem evictStale_exact:
  assumes "unique_ids pm"
  shows "cleanupStalePeers cfg now pm =
           (length (filter (\<lambda>e. now - lastSeen (snd e) > PEER_TIMEOUT cfg) (seenPeers pm)),
            pm\<lparr>seenPeers :=
                 filter (\<lambda>e. \<not> now - lastSeen (snd e) > PEER_TIMEOUT cfg) (seenPeers pm)\<rparr>) \<and>
         prune maxAge now pm =
           (length (filter (\<lambda>e. real_of_int (now - lastSeen (snd e)) / 1000 > maxAge)
                      (seenPeers pm)),
            pm\<lparr>seenPeers :=
                 filter (\<lambda>e. \<not> real_of_int (now - lastSeen (snd e)) / 1000 > maxAge)
                   (seenPeers pm)\<rparr>)"
proof -
  have d: "distinct (map fst (seenPeers pm))"
    using assms by (simp add: unique_ids_def)
  have t: "timed_out cfg now = (\<lambda>e. now - lastSeen (snd e) > PEER_TIMEOUT cfg)"
    by (rule ext) (simp add: timed_out_def)
  have o: "too_old maxAge now = (\<lambda>e. real_of_int (now - lastSeen (snd e)) / 1000 > maxAge)"
    by (rule ext) (simp add: too_old_def)
  show ?thesis
    using cleanup_loop_result [OF d, of cfg now] prune_loop_result [OF d, of maxAge now] t o
    by (simp add: cleanupStalePeers_def prune_def)
qed

text \<open>
  The example of the claim, ages 5 s, 20 s and 61 s: \<^verbatim>\<open>prune(60)\<close> removes one entry, the
  oldest; \<^verbatim>\<open>cleanupStalePeers\<close>, whose limit is the constant 15 s, removes the two entries
  older than that.
\<close>

theorem evictStale_exact_witness:
  "unique_ids three_ages \<and>
   fst (prune 60 100000 three_ages) = 1 \<and>
   map fst (seenPeers (snd (prune 60 100000 three_ages))) = [Some ''a'', Some ''b''] \<and>
   fst (cleanupStalePeers default_config 100000 three_ages) = 2 \<and>
   map fst (seenPeers (snd (cleanupStalePeers default_config 100000 three_ages))) = [Some ''a'']"
proof -
  have u: "unique_ids three_ages"
    by (simp add: unique_ids_def three_ages_def)
  show ?thesis
    using u evictStale_exact [OF u, of default_config 100000 60]
    by (simp add: three_ages_def default_config_def)
qed

text \<open>
  Claim C7. A new directory holds one entry per id, and if a directory does, then it
  holds at most one entry for any id and still does after \<^verbatim>\<open>addOrUpdatePeer\<close>,
  \<^verbatim>\<open>removePeer\<close>, \<^verbatim>\<open>cleanupStalePeers\<close>, \<^verbatim>\<open>prune\<close> and \<^verbatim>\<open>fromJSON\<close> (also when \<^verbatim>\<open>fromJSON\<close> stops at
  a \<^verbatim>\<open>null\<close> element); \<^verbatim>\<open>addOrUpdatePeer\<close> of a present id replaces its record and adds no
  entry.
\<close>

theorem directory_unique_ids:
  assumes "unique_ids pm"
  shows "unique_ids constructor \<and>
         length (filter (\<lambda>e. fst e = pid) (seenPeers pm)) \<le> 1 \<and>
         unique_ids (snd (addOrUpdatePeer now pid sq k pm)) \<and>
         (hasPeer pm pid \<longrightarrow>
            size_pm (snd (addOrUpdatePeer now pid sq k pm)) = size_pm pm \<and>
            getPeer (snd (addOrUpdatePeer now pid sq k pm)) pid
              = Some \<lparr> seq = sq, lastSeen = now, key = k, ip = None, port = None \<rparr>) \<and>
         unique_ids (snd (removePeer pid pm)) \<and>
         unique_ids (snd (cleanupStalePeers cfg now pm)) \<and>
         unique_ids (snd (prune maxAge now pm)) \<and>
         unique_ids (snd (fromJSON unhex nows data pm))"
proof -
  have d: "distinct (map fst (seenPeers pm))"
    using assms by (simp add: unique_ids_def)
  have new: "unique_ids constructor"
    by (simp add: unique_ids_def constructor_def)
  have one: "length (filter (\<lambda>e. fst e = pid) (seenPeers pm)) \<le> 1"
    using d by (rule at_most_one_entry)
  have up: "unique_ids (snd (addOrUpdatePeer now pid sq k pm))"
    using d by (simp add: unique_ids_def addOrUpdatePeer_def Let_def distinct_Map_set)
  have ov: "hasPeer pm pid \<longrightarrow>
            size_pm (snd (addOrUpdatePeer now pid sq k pm)) = size_pm pm \<and>
            getPeer (snd (addOrUpdatePeer now pid sq k pm)) pid
              = Some \<lparr> seq = sq, lastSeen = now, key = k, ip = None, port = None \<rparr>"
    by (simp add: hasPeer_def size_pm_def getPeer_def addOrUpdatePeer_def Let_def
        Map_size_set Map_get_set)
  have rm: "unique_ids (snd (removePeer pid pm))"
    using d by (simp add: unique_ids_def removePeer_def distinct_Map_delete)
  have cl: "unique_ids (snd (cleanupStalePeers cfg now pm))"
    using d cleanup_loop_result [OF d, of cfg now]
    by (simp add: unique_ids_def cleanupStalePeers_def distinct_map_filter)
  have pr: "unique_ids (snd (prune maxAge now pm))"
    using d prune_loop_result [OF d, of maxAge now]
    by (simp add: unique_ids_def prune_def distinct_map_filter)
  have fj: "unique_ids (snd (fromJSON unhex nows data pm))"
  proof (cases data)
    case None
    then show ?thesis using d by (simp add: unique_ids_def fromJSON_def)
  next
    case (Some es)
    then show ?thesis
      using fromJSON_loop_distinct [OF d, of unhex nows 0 es]
      by (simp add: unique_ids_def fromJSON_def split_beta)
  qed
  show ?thesis
    using new one up ov rm cl pr fj by blast
qed

theorem directory_unique_ids_witness:
  "unique_ids three_ages \<and>
   hasPeer three_ages (Some ''b'') \<and>
   size_pm (snd (addOrUpdatePeer 100000 (Some ''b'') 0 None three_ages)) = 3 \<and>
   unique_ids (snd (fromJSON (\<lambda>h. []) (\<lambda>i. 7) (Some dup_cache) three_ages)) \<and>
   size_pm (snd (fromJSON (\<lambda>h. []) (\<lambda>i. 7) (Some dup_cache) three_ages)) = 3"
proof -
  have u: "unique_ids three_ages"
    by (simp add: unique_ids_def three_ages_def)
  show ?thesis
    using u directory_unique_ids [OF u, of "Some ''b''" 100000 0 None default_config 60
                  "\<lambda>h. []" "\<lambda>i. 7" "Some dup_cache"]
    by (simp add: three_ages_def hasPeer_def Map_has_def size_pm_def Map_size_def
        fromJSON_def dup_cache_def)
qed

section \<open>The enumerator is a permutation\<close>

lemma join_split: "join_block (split_block x) = x"
  unfolding join_block_def split_block_def
  by (rule bit_word_eqI) (auto simp: bit_simps)

lemma split_join: "split_block (join_block lr) = lr"
proof -
  obtain l r where lr: "lr = (l, r)" by (cases lr)
  have a: "ucast (drop_bit 16 (push_bit 16 (ucast l :: 32 word) OR ucast r)) = l"
    by (rule bit_word_eqI) (auto simp: bit_simps dest: bit_imp_le_length)
  have b: "ucast (push_bit 16 (ucast l :: 32 word) OR (ucast r :: 32 word)) = r"
    by (rule bit_word_eqI) (auto simp: bit_simps)
  show ?thesis by (simp only: lr join_block_def split_block_def fst_conv snd_conv a b)
qed

lemma unround_round: "feistel_unround f (feistel_round f lr) = lr"
  by (simp add: feistel_unround_def feistel_round_def xor.assoc)

lemma round_unround: "feistel_round f (feistel_unround f lr) = lr"
  by (simp add: feistel_unround_def feistel_round_def xor.assoc)

lemma bij_round: "bij (feistel_round f)"
  by (rule bij_betw_byWitness [where f' = "feistel_unround f"])
     (auto simp: unround_round round_unround)

lemma bij_rounds: "bij (feistel_rounds F seed n)"
proof (induction n)
  case 0
  have "feistel_rounds F seed 0 = id" by (rule ext) simp
  then show ?case by (simp only: bij_id)
next
  case (Suc n)
  have "feistel_rounds F seed (Suc n) = feistel_round (F n seed) \<circ> feistel_rounds F seed n"
    by (rule ext) simp
  then show ?case by (simp only: bij_comp [OF Suc bij_round])
qed

lemma bij_split: "bij split_block"
  by (rule bij_betw_byWitness [where f' = join_block]) (auto simp: split_join join_split)

lemma bij_join: "bij join_block"
  by (rule bij_betw_byWitness [where f' = split_block]) (auto simp: split_join join_split)

lemma bij_encrypt: "bij (feistel_encrypt F rounds seed)"
proof -
  have "feistel_encrypt F rounds seed = join_block \<circ> feistel_rounds F seed rounds \<circ> split_block"
    by (rule ext) (simp add: feistel_encrypt_def)
  then show ?thesis using bij_split bij_join bij_rounds by (simp add: bij_comp)
qed

lemma after_calls_state:
  "after_calls F rounds i (create_enumerator seed)
     = \<lparr> feistel_key = seed, counter = min i (2 ^ 32) \<rparr>"
  by (induction i) (auto simp: create_enumerator_def next_address_def min_def)

lemma nth_output_eq:
  "nth_output F rounds seed i
     = (if i < 2 ^ 32 then Some (feistel_encrypt F rounds seed (word_of_nat i)) else None)"
  by (simp add: nth_output_def after_calls_state next_address_def)

lemma of_nat_32_inj:
  "i < 2 ^ 32 \<Longrightarrow> j < 2 ^ 32 \<Longrightarrow> (word_of_nat i :: 32 word) = word_of_nat j \<Longrightarrow> i = j"
  by (simp add: word_of_nat_eq_iff take_bit_nat_eq_self)

lemma four_rounds:
  "feistel_rounds F seed 4 lr
     = feistel_round (F 3 seed) (feistel_round (F 2 seed)
         (feistel_round (F 1 seed) (feistel_round (F 0 seed) lr)))"
proof -
  have "feistel_rounds F seed (Suc (Suc (Suc (Suc 0)))) lr
     = feistel_round (F (Suc (Suc (Suc 0))) seed) (feistel_round (F (Suc (Suc 0)) seed)
         (feistel_round (F (Suc 0) seed) (feistel_round (F 0 seed) lr)))"
    by (simp only: feistel_rounds.simps)
  moreover have "Suc (Suc (Suc (Suc 0))) = 4" "Suc (Suc (Suc 0)) = 3" "Suc (Suc 0) = 2" "Suc 0 = 1"
    by simp_all
  ultimately show ?thesis by (simp only:)
qed

text \<open>
  Claim C1. For every round function, number of rounds and seed: two outputs of the
  enumerator at different positions below \<open>2^32\<close> differ; every 32-bit value is the
  output of exactly one position below \<open>2^32\<close>; from position \<open>2^32\<close> on the enumerator
  is exhausted; and the Feistel rounds are a bijection on the 32-bit words.
\<close>

theorem enumerator_permutation:
  "(\<forall>i j. i < j \<and> j < 2 ^ 32 \<longrightarrow> nth_output F rounds seed i \<noteq> nth_output F rounds seed j) \<and>
   (\<forall>v. \<exists>!i. i < 2 ^ 32 \<and> nth_output F rounds seed i = Some v) \<and>
   (\<forall>i. i \<ge> 2 ^ 32 \<longrightarrow> nth_output F rounds seed i = None) \<and>
   bij (feistel_encrypt F rounds seed)"
proof -
  have inj: "inj (feistel_encrypt F rounds seed)" and surj: "surj (feistel_encrypt F rounds seed)"
    using bij_encrypt [of F rounds seed] by (auto simp: bij_def)
  have a: "\<forall>i j. i < j \<and> j < 2 ^ 32 \<longrightarrow> nth_output F rounds seed i \<noteq> nth_output F rounds seed j"
  proof (intro allI impI)
    fix i j :: nat assume h: "i < j \<and> j < 2 ^ 32"
    then have "(word_of_nat i :: 32 word) \<noteq> word_of_nat j"
      using of_nat_32_inj [of i j] by auto
    then have "feistel_encrypt F rounds seed (word_of_nat i)
                 \<noteq> feistel_encrypt F rounds seed (word_of_nat j)"
      using inj by (auto dest: injD)
    then show "nth_output F rounds seed i \<noteq> nth_output F rounds seed j"
      using h by (simp add: nth_output_eq)
  qed
  have b: "\<forall>v. \<exists>!i. i < 2 ^ 32 \<and> nth_output F rounds seed i = Some v"
  proof
    fix v
    obtain x where x: "feistel_encrypt F rounds seed x = v"
      using surj by (metis surjD)
    have ux: "unat x < 2 ^ 32" using unsigned_less [of x] by simp
    show "\<exists>!i. i < 2 ^ 32 \<and> nth_output F rounds seed i = Some v"
    proof (rule ex1I [of _ "unat x"])
      show "unat x < 2 ^ 32 \<and> nth_output F rounds seed (unat x) = Some v"
        using ux x by (simp add: nth_output_eq)
    next
      fix i assume i: "i < 2 ^ 32 \<and> nth_output F rounds seed i = Some v"
      then have "feistel_encrypt F rounds seed (word_of_nat i) = feistel_encrypt F rounds seed x"
        using x by (auto simp: nth_output_eq)
      then have "(word_of_nat i :: 32 word) = x" using inj by (auto dest: injD)
      then show "i = unat x" using i by (auto simp: unat_of_nat)
    qed
  qed
  have c: "\<forall>i. i \<ge> 2 ^ 32 \<longrightarrow> nth_output F rounds seed i = None"
    by (simp add: nth_output_eq)
  show ?thesis using a b c bij_encrypt by blast
qed

text \<open>Four rounds of \<open>mix\<close> under the seed 7: the first two addresses, and they differ.\<close>

theorem enumerator_permutation_witness:
  "(0::nat) < 1 \<and> (1::nat) < 2 ^ 32 \<and>
   nth_output mix 4 7 0 = Some 2155851482 \<and> nth_output mix 4 7 1 = Some 1017707385 \<and>
   nth_output mix 4 7 0 \<noteq> nth_output mix 4 7 1"
proof -
  have h: "(0::nat) < 1 \<and> (1::nat) < 2 ^ 32" by simp
  have "\<forall>i j. i < j \<and> j < 2 ^ 32 \<longrightarrow> nth_output mix 4 7 i \<noteq> nth_output mix 4 7 j"
    using enumerator_permutation [of mix 4 7] by (rule conjunct1)
  then have d: "nth_output mix 4 7 0 \<noteq> nth_output mix 4 7 1"
    using h by blast
  have v: "nth_output mix 4 7 0 = Some 2155851482 \<and> nth_output mix 4 7 1 = Some 1017707385"
    by (simp add: nth_output_eq feistel_encrypt_def split_block_def join_block_def
        feistel_round_def mix_def four_rounds)
  show ?thesis using h d v by blast
qed

section \<open>Properties of the peer cache\<close>

lemma filter_fresh_objects:
  "filter_fresh cfg now (map EObj ps) = Inr (filter (is_fresh cfg now) ps)"
  by (induction ps) auto

text \<open>
  Claim C5, as stated, at a concrete file: a cache file whose version is 2, not the 1
  that \<^verbatim>\<open>savePeerCache\<close> writes, is not discarded. Its peer is returned, and no warning is
  printed.
\<close>

theorem loadPeerCache_accepts_other_version:
  "loadPeerCache quiet_env cache_on version_2_world
     = ([fresh_peer], version_2_world\<lparr>reads := 1, events := [Call LoadPeerCache]\<rparr>)"
  by (simp add: loadPeerCache_def loadPeerCache_try_def selected_peers_def version_2_world_def
      fresh_world_def cache_on_def default_config_def quiet_env_def fresh_peer_def emit_def
      Date_now_def is_fresh_def Let_def)

text \<open>
  Claim C5, amended. \<^verbatim>\<open>loadPeerCache\<close> returns an array in every case. With the cache
  disabled or the file missing the array is empty and nothing is printed. A file that
  cannot be read or parsed, and the document \<^verbatim>\<open>null\<close>, give the empty array and the
  warning "Failed to load cache", as does every exception of the \<^verbatim>\<open>try\<close> block. A document
  in which no array is selected gives the empty array and the warning "Invalid cache
  format". The version is tested for truthiness only: whatever non-zero version an
  object carries, its peers are filtered by age and returned.
\<close>

theorem loadPeerCache_never_raises:
  "(\<not> PEER_CACHE_ENABLED cfg \<or> cacheFile w = Missing \<longrightarrow>
      loadPeerCache e cfg w = ([], emit (Call LoadPeerCache) w)) \<and>
   (PEER_CACHE_ENABLED cfg \<and>
    (cacheFile w = Unreadable \<or> cacheFile w = Corrupt \<or> cacheFile w = Parsed JNull) \<longrightarrow>
      loadPeerCache e cfg w
        = ([], emit (Warn FailedToLoadCache) (emit (Call LoadPeerCache) w))) \<and>
   (PEER_CACHE_ENABLED cfg \<and>
    loadPeerCache_try e cfg (emit (Call LoadPeerCache) w) = Inl (err, w1) \<longrightarrow>
      loadPeerCache e cfg w = ([], emit (Warn FailedToLoadCache) w1)) \<and>
   (PEER_CACHE_ENABLED cfg \<and> cacheFile w = Parsed d \<and> selected_peers d = Inr None \<longrightarrow>
      loadPeerCache e cfg w
        = ([], emit (Warn InvalidCacheFormat) (emit (Call LoadPeerCache) w))) \<and>
   (PEER_CACHE_ENABLED cfg \<and> cacheFile w = Parsed (JObject (Some v) ts (Some es)) \<and> v \<noteq> 0 \<longrightarrow>
      fst (loadPeerCache e cfg w)
        = (case filter_fresh cfg (clock e (reads w)) es of Inl err \<Rightarrow> [] | Inr ps \<Rightarrow> ps))"
  by (auto simp: loadPeerCache_def loadPeerCache_try_def emit_def Date_now_def Let_def
        selected_peers_def split: sum.splits)

theorem loadPeerCache_never_raises_witness:
  "PEER_CACHE_ENABLED cache_on \<and>
   loadPeerCache quiet_env cache_on fresh_world = ([], emit (Call LoadPeerCache) fresh_world) \<and>
   loadPeerCache quiet_env cache_on (fresh_world\<lparr>cacheFile := Corrupt\<rparr>)
     = ([], fresh_world\<lparr>cacheFile := Corrupt,
                        events := [Call LoadPeerCache, Warn FailedToLoadCache]\<rparr>) \<and>
   loadPeerCache quiet_env cache_on (fresh_world\<lparr>cacheFile := Parsed (JArray [ENull])\<rparr>)
     = ([], fresh_world\<lparr>cacheFile := Parsed (JArray [ENull]), reads := 1,
                        events := [Call LoadPeerCache, Warn FailedToLoadCache]\<rparr>) \<and>
   loadPeerCache quiet_env cache_on (fresh_world\<lparr>cacheFile := Parsed JScalar\<rparr>)
     = ([], fresh_world\<lparr>cacheFile := Parsed JScalar,
                        events := [Call LoadPeerCache, Warn InvalidCacheFormat]\<rparr>) \<and>
   fst (loadPeerCache quiet_env cache_on version_2_world) = [fresh_peer]"
  using loadPeerCache_never_raises
          [of cache_on fresh_world quiet_env TypeError fresh_world JNull 1 None "[]"]
        loadPeerCache_never_raises
          [of cache_on "fresh_world\<lparr>cacheFile := Corrupt\<rparr>" quiet_env TypeError fresh_world
              JNull 1 None "[]"]
        loadPeerCache_never_raises
          [of cache_on "fresh_world\<lparr>cacheFile := Parsed (JArray [ENull])\<rparr>" quiet_env TypeError
              "fresh_world\<lparr>cacheFile := Parsed (JArray [ENull]), reads := 1,
                            events := [Call LoadPeerCache]\<rparr>" JNull 1 None "[]"]
        loadPeerCache_never_raises
          [of cache_on "fresh_world\<lparr>cacheFile := Parsed JScalar\<rparr>" quiet_env TypeError
              fresh_world JScalar 1 None "[]"]
        loadPeerCache_never_raises
          [of cache_on version_2_world quiet_env TypeError fresh_world
              JNull 2 "Some 5500" "[EObj fresh_peer]"]
  by (simp add: cache_on_def default_config_def fresh_world_def emit_def version_2_world_def
      loadPeerCache_try_def Date_now_def quiet_env_def selected_peers_def is_fresh_def
      fresh_peer_def)

text \<open>
  Claim C6. With the cache enabled and the file writable, after \<^verbatim>\<open>savePeerCache\<close> of at
  most 100 peers, \<^verbatim>\<open>loadPeerCache\<close> in any later world that still holds the written file
  returns the same peers in the same order, provided each peer has a \<^verbatim>\<open>lastSeen\<close> whose
  age at the time of loading is below \<^verbatim>\<open>PEER_CACHE_MAX_AGE\<close> seconds.
\<close>

theorem cache_round_trip:
  assumes "PEER_CACHE_ENABLED cfg" and "writable w" and "length ps \<le> 100"
    and "cacheFile w' = cacheFile (savePeerCache e cfg ps w)"
    and "\<forall>p\<in>set ps. \<exists>t. p_lastSeen p = Some t \<and>
           real_of_int (clock e (reads w') - t) / 1000 < real_of_int (PEER_CACHE_MAX_AGE cfg)"
  shows "fst (loadPeerCache e cfg w') = ps"
proof -
  have f: "cacheFile w'
             = Parsed (JObject (Some 1) (Some (clock e (reads w))) (Some (map EObj ps)))"
    using assms(1-4) by (simp add: savePeerCache_def emit_def Date_now_def Let_def)
  have "\<forall>p\<in>set ps. is_fresh cfg (clock e (reads w')) p"
    using assms(5) by (auto simp: is_fresh_def)
  then have "filter (is_fresh cfg (clock e (reads w'))) ps = ps"
    by (simp add: filter_id_conv)
  then show ?thesis
    using assms(1) f
    by (simp add: loadPeerCache_def loadPeerCache_try_def selected_peers_def emit_def
        Date_now_def Let_def filter_fresh_objects)
qed

theorem cache_round_trip_witness:
  "PEER_CACHE_ENABLED cache_on \<and> writable fresh_world \<and>
   fst (loadPeerCache quiet_env cache_on
          (savePeerCache quiet_env cache_on [fresh_peer, older_peer] fresh_world))
     = [fresh_peer, older_peer]"
proof -
  have a: "PEER_CACHE_ENABLED cache_on" and b: "writable fresh_world"
    by (simp_all add: cache_on_def default_config_def fresh_world_def)
  have c: "length [fresh_peer, older_peer] \<le> 100" by simp
  have d: "\<forall>p\<in>set [fresh_peer, older_peer]. \<exists>t. p_lastSeen p = Some t \<and>
             real_of_int (clock quiet_env
                (reads (savePeerCache quiet_env cache_on [fresh_peer, older_peer] fresh_world)) - t)
               / 1000 < real_of_int (PEER_CACHE_MAX_AGE cache_on)"
    by (simp add: fresh_peer_def older_peer_def quiet_env_def cache_on_def default_config_def)
  show ?thesis
    using a b cache_round_trip [OF a b c refl d] by simp
qed

section \<open>What each function adds to the trace\<close>

declare scan_loop.simps [simp del]

lemmas phase_defs = debug_result_def after_debug_def cache_result_def after_cache_def
  scan_result_def after_scan_def

lemma plain_simps [simp]:
  "plain (Log m)" "plain (Warn m)" "plain (Call (TryConnectToPeer a p t))"
  by (simp_all add: plain_def)

lemma no_scan_no_save_simps [simp]:
  "no_scan_no_save (Log m)" "no_scan_no_save (Warn m)"
  "no_scan_no_save (Call (TryConnectToPeer a p t))" "no_scan_no_save (Call LoadPeerCache)"
  by (simp_all add: no_scan_no_save_def)

lemma only_emits_refl: "only_emits A w w"
  by (simp add: only_emits_def)

lemma only_emits_trans: "only_emits A w w1 \<Longrightarrow> only_emits A w1 w2 \<Longrightarrow> only_emits A w w2"
  by (auto simp: only_emits_def)

lemma only_emits_emit: "A ev \<Longrightarrow> only_emits A w w1 \<Longrightarrow> only_emits A w (emit ev w1)"
  by (auto simp: only_emits_def emit_def)

lemma only_emits_filter:
  "only_emits A w w' \<Longrightarrow> (\<And>ev. A ev \<Longrightarrow> \<not> P ev) \<Longrightarrow> filter P (events w') = filter P (events w)"
  by (auto simp: only_emits_def list_all_iff filter_empty_conv)

lemma saved_not_save: "\<not> is_save ev \<Longrightarrow> saved ev = []"
  by (cases ev rule: is_save.cases) auto

lemma saves_append [simp]: "saves (xs @ ys) = saves xs @ saves ys"
  by (simp add: saves_def)

lemma saves_emit: "saves (events (emit ev w)) = saves (events w) @ saved ev"
  by (simp add: saves_def emit_def)

lemma saves_quiet: "list_all (\<lambda>ev. \<not> is_save ev) evs \<Longrightarrow> saves evs = []"
  by (induction evs) (auto simp: saves_def saved_not_save)

lemma only_emits_saves:
  "only_emits A w w' \<Longrightarrow> (\<And>ev. A ev \<Longrightarrow> \<not> is_save ev) \<Longrightarrow> saves (events w') = saves (events w)"
  by (auto simp: only_emits_def list_all_iff saves_def saved_not_save)

lemma Date_now_events [simp]: "events (snd (Date_now e w)) = events w"
  by (simp add: Date_now_def)

lemma debug_phase_emits: "only_emits plain w (snd (debug_phase e cfg w))"
  by (auto simp: debug_phase_def Let_def only_emits_def emit_def tryConnectToPeer_def
      split: option.splits)

lemma loadPeerCache_emits: "only_emits no_scan_no_save w (snd (loadPeerCache e cfg w))"
  by (auto simp: loadPeerCache_def loadPeerCache_try_def selected_peers_def Let_def
      only_emits_def emit_def Date_now_def
      split: cache_file.splits json_doc.splits sum.splits option.splits prod.splits)

lemma retry_loop_emits: "only_emits no_scan_no_save w (snd (retry_loop e ps w))"
proof (induction ps arbitrary: w)
  case Nil
  show ?case by (simp add: only_emits_def emit_def)
next
  case (Cons p ps)
  let ?w1 = "emit (Log (TryingCachedPeer (p_ip p) (p_port p))) w"
  let ?w2 = "snd (tryConnectToPeer e (p_ip p) (p_port p) 500 ?w1)"
  have a: "only_emits no_scan_no_save w ?w2"
    by (simp add: tryConnectToPeer_def Let_def emit_def only_emits_def)
  show ?case
  proof (cases "fst (tryConnectToPeer e (p_ip p) (p_port p) 500 ?w1)")
    case True
    then show ?thesis
      using only_emits_emit [OF _ a, of "Log (ReconnectedToCachedPeer (p_ip p))"]
      by (simp add: split_beta Let_def)
  next
    case False
    then show ?thesis
      using only_emits_trans [OF a Cons.IH [of ?w2]]
      by (simp add: split_beta Let_def)
  qed
qed

lemma retryCachedPeers_emits:
  "\<exists>evs. events (snd (retryCachedPeers e cfg w)) = events w @ Call RetryCachedPeers # evs
         \<and> list_all no_scan_no_save evs"
proof -
  let ?w = "emit (Call RetryCachedPeers) w"
  let ?w1 = "snd (loadPeerCache e cfg ?w)"
  have a: "only_emits no_scan_no_save ?w ?w1" by (rule loadPeerCache_emits)
  have "only_emits no_scan_no_save ?w (snd (retryCachedPeers e cfg w))"
  proof (cases "length (fst (loadPeerCache e cfg ?w)) = 0")
    case True
    then show ?thesis
      using only_emits_emit [OF _ a, of "Log NoCachedPeers"]
      by (simp add: retryCachedPeers_def Let_def split_beta)
  next
    case False
    let ?w2 = "emit (Log (AttemptingReconnect (length (fst (loadPeerCache e cfg ?w))))) ?w1"
    have "only_emits no_scan_no_save ?w ?w2"
      using only_emits_emit [OF _ a] by simp
    then show ?thesis
      using False only_emits_trans [OF _ retry_loop_emits [of ?w2 e]]
      by (simp add: retryCachedPeers_def Let_def split_beta)
  qed
  then show ?thesis
    by (auto simp: only_emits_def emit_def)
qed

lemma scan_body_emits:
  "only_emits plain w (snd (scan_body e cfg gen st to a g w))"
  by (auto simp: scan_body_def Let_def only_emits_def emit_def Date_now_def
      tryConnectToPeer_def split: prod.splits)

lemma scan_loop_emits:
  "only_emits plain w (snd (scan_loop e cfg gen st to a g w))"
proof (induction e cfg gen st to a g w rule: scan_loop.induct)
  case (1 e cfg gen st to a g w)
  show ?case
  proof (cases "a < maxAttempts")
    case False
    then show ?thesis by (subst scan_loop.simps) (simp add: only_emits_refl)
  next
    case True
    obtain r w' where b: "scan_body e cfg gen st to a g w = (r, w')"
      by (cases "scan_body e cfg gen st to a g w")
    have s: "only_emits plain w w'"
      using scan_body_emits [of w e cfg gen st to a g] b by simp
    show ?thesis
    proof (cases r)
      case None
      then show ?thesis
        using True b only_emits_trans [OF s "1.IH" [OF True b [symmetric] None]]
        by (subst scan_loop.simps) simp
    next
      case (Some res)
      then show ?thesis
        using True b s by (subst scan_loop.simps) simp
    qed
  qed
qed

lemma scanIPv4Space_emits:
  "\<exists>evs. events (snd (scanIPv4Space e cfg seed to w))
            = events w @ Call (ScanIPv4Space seed to) # evs \<and> list_all plain evs"
proof -
  let ?w2 = "emit (Log (StartingScan (SCAN_PORT cfg) to))
               (snd (Date_now e (emit (Call (ScanIPv4Space seed to)) w)))"
  have "only_emits plain ?w2 (snd (scanIPv4Space e cfg seed to w))"
    using scan_loop_emits [of ?w2]
    by (simp add: scanIPv4Space_def Let_def split_beta)
  then show ?thesis
    by (auto simp: only_emits_def emit_def)
qed

lemma savePeerCache_events:
  "saves (events (savePeerCache e cfg ps w)) = saves (events w) @ [ps]"
  by (simp add: savePeerCache_def Let_def emit_def Date_now_def saves_def)

lemma savePeerCache_file:
  "PEER_CACHE_ENABLED cfg \<Longrightarrow> writable w \<Longrightarrow>
   cacheFile (savePeerCache e cfg ps w)
     = Parsed (JObject (Some 1) (Some (clock e (reads w))) (Some (map EObj (take 100 ps))))"
  by (simp add: savePeerCache_def Let_def emit_def Date_now_def)

lemma savePeerCache_extends: "\<exists>evs. events (savePeerCache e cfg ps w) = events w @ evs"
  by (simp add: savePeerCache_def Let_def emit_def Date_now_def)

section \<open>The four ways through the orchestrator\<close>

lemma bootstrap_debug:
  "debug_result e cfg seed w = Some p \<Longrightarrow>
   bootstrapPeers e cfg seed w = (Some p, after_debug e cfg seed w)"
  by (simp add: bootstrapPeers_def Let_def phase_defs after_start_def split_beta)

lemma bootstrap_cached:
  "debug_result e cfg seed w = None \<Longrightarrow> cache_result e cfg seed w = Some p \<Longrightarrow>
   bootstrapPeers e cfg seed w
     = (Some p, emit (Log (CachedComplete (p_ip p))) (after_cache e cfg seed w))"
  by (simp add: bootstrapPeers_def Let_def phase_defs after_start_def split_beta)

lemma bootstrap_scanned:
  "debug_result e cfg seed w = None \<Longrightarrow> cache_result e cfg seed w = None \<Longrightarrow>
   scan_result e cfg seed w = Some sp \<Longrightarrow>
   bootstrapPeers e cfg seed w
     = (Some (sp\<lparr>p_id := None, p_lastSeen := Some (clock e (reads (after_scan e cfg seed w)))\<rparr>),
        emit (Log ScanComplete)
          (savePeerCache e cfg
             [sp\<lparr>p_id := None, p_lastSeen := Some (clock e (reads (after_scan e cfg seed w)))\<rparr>]
             (snd (Date_now e (after_scan e cfg seed w)))))"
  by (simp add: bootstrapPeers_def Let_def phase_defs after_start_def Date_now_def split_beta)

lemma bootstrap_fallback:
  "debug_result e cfg seed w = None \<Longrightarrow> cache_result e cfg seed w = None \<Longrightarrow>
   scan_result e cfg seed w = None \<Longrightarrow>
   bootstrapPeers e cfg seed w = (None, emit (Log FallbackToDHT) (after_scan e cfg seed w))"
  by (simp add: bootstrapPeers_def Let_def phase_defs after_start_def split_beta)

lemma after_debug_emits: "only_emits plain w (after_debug e cfg seed w)"
proof -
  have "only_emits plain w (after_start seed w)"
    by (simp add: after_start_def only_emits_emit only_emits_refl)
  then show ?thesis
    unfolding after_debug_def by (rule only_emits_trans) (rule debug_phase_emits)
qed

lemma after_cache_events:
  "\<exists>evs. events (after_cache e cfg seed w)
            = events (after_debug e cfg seed w) @ Call RetryCachedPeers # evs
         \<and> list_all no_scan_no_save evs"
  unfolding after_cache_def by (rule retryCachedPeers_emits)

lemma after_scan_events:
  "\<exists>evs. events (after_scan e cfg seed w)
            = events (after_cache e cfg seed w)
              @ Call (ScanIPv4Space seed (BOOTSTRAP_TIMEOUT cfg)) # evs
         \<and> list_all plain evs"
  unfolding after_scan_def by (rule scanIPv4Space_emits)

lemma saves_after_debug: "saves (events (after_debug e cfg seed w)) = saves (events w)"
  using after_debug_emits by (rule only_emits_saves) (simp add: plain_def)

lemma saves_after_cache: "saves (events (after_cache e cfg seed w)) = saves (events w)"
proof -
  obtain evs where e: "events (after_cache e cfg seed w)
            = events (after_debug e cfg seed w) @ Call RetryCachedPeers # evs"
    and q: "list_all no_scan_no_save evs"
    using after_cache_events by blast
  have "list_all (\<lambda>ev. \<not> is_save ev) (Call RetryCachedPeers # evs)"
    using q by (auto simp: list_all_iff no_scan_no_save_def)
  then show ?thesis
    using e saves_after_debug [of e cfg seed w] by (simp only: saves_append saves_quiet) simp
qed

lemma saves_after_scan: "saves (events (after_scan e cfg seed w)) = saves (events w)"
proof -
  obtain evs where e: "events (after_scan e cfg seed w)
            = events (after_cache e cfg seed w)
              @ Call (ScanIPv4Space seed (BOOTSTRAP_TIMEOUT cfg)) # evs"
    and q: "list_all plain evs"
    using after_scan_events by blast
  have "list_all (\<lambda>ev. \<not> is_save ev) (Call (ScanIPv4Space seed (BOOTSTRAP_TIMEOUT cfg)) # evs)"
    using q by (auto simp: list_all_iff plain_def)
  then show ?thesis
    using e saves_after_cache [of e cfg seed w] by (simp only: saves_append saves_quiet) simp
qed

lemma bootstrap_extends_cache:
  assumes "debug_result e cfg seed w = None"
  shows "\<exists>evs. events (snd (bootstrapPeers e cfg seed w)) = events (after_cache e cfg seed w) @ evs"
proof (cases "cache_result e cfg seed w")
  case (Some p)
  then show ?thesis using assms by (simp add: bootstrap_cached emit_def)
next
  case None
  obtain evs where s: "events (after_scan e cfg seed w)
      = events (after_cache e cfg seed w) @ Call (ScanIPv4Space seed (BOOTSTRAP_TIMEOUT cfg)) # evs"
    using after_scan_events by blast
  show ?thesis
  proof (cases "scan_result e cfg seed w")
    case None
    then show ?thesis
      using assms \<open>cache_result e cfg seed w = None\<close> s
      by (simp add: bootstrap_fallback emit_def)
  next
    case (Some sp)
    obtain evs' where "events (savePeerCache e cfg
             [sp\<lparr>p_id := None, p_lastSeen := Some (clock e (reads (after_scan e cfg seed w)))\<rparr>]
             (snd (Date_now e (after_scan e cfg seed w))))
          = events (snd (Date_now e (after_scan e cfg seed w))) @ evs'"
      using savePeerCache_extends by blast
    then show ?thesis
      using assms \<open>cache_result e cfg seed w = None\<close> s Some
      by (simp add: bootstrap_scanned emit_def)
  qed
qed

lemma bootstrap_extends_scan:
  assumes "debug_result e cfg seed w = None" and "cache_result e cfg seed w = None"
  shows "\<exists>evs. events (snd (bootstrapPeers e cfg seed w)) = events (after_scan e cfg seed w) @ evs"
proof (cases "scan_result e cfg seed w")
  case None
  then show ?thesis using assms by (simp add: bootstrap_fallback emit_def)
next
  case (Some sp)
  obtain evs' where "events (savePeerCache e cfg
           [sp\<lparr>p_id := None, p_lastSeen := Some (clock e (reads (after_scan e cfg seed w)))\<rparr>]
           (snd (Date_now e (after_scan e cfg seed w))))
        = events (snd (Date_now e (after_scan e cfg seed w))) @ evs'"
    using savePeerCache_extends by blast
  then show ?thesis
    using assms Some by (simp add: bootstrap_scanned emit_def)
qed

lemma starts_after_debug:
  "filter is_cache_start (events (after_debug e cfg seed w)) = filter is_cache_start (events w)"
  "filter is_scan_start (events (after_debug e cfg seed w)) = filter is_scan_start (events w)"
  using after_debug_emits [of w e cfg seed]
  by (auto intro!: only_emits_filter simp: plain_def)

lemma scan_starts_after_cache:
  "filter is_scan_start (events (after_cache e cfg seed w)) = filter is_scan_start (events w)"
proof -
  obtain evs where e: "events (after_cache e cfg seed w)
            = events (after_debug e cfg seed w) @ Call RetryCachedPeers # evs"
    and q: "list_all no_scan_no_save evs"
    using after_cache_events by blast
  have "filter is_scan_start evs = []"
    using q by (auto simp: list_all_iff no_scan_no_save_def filter_empty_conv)
  then show ?thesis
    using e starts_after_debug(2) [of e cfg seed w] by simp
qed

lemma debug_phase_success:
  assumes "BOOTSTRAP_PEER_IP cfg = Some a" and "a \<noteq> []"
    and "reachable e (conns w) (Some a) (Some (SCAN_PORT cfg)) 2000"
  shows "debug_phase e cfg w
           = (Some (address_object a (SCAN_PORT cfg)),
              w\<lparr>conns := conns w + 1,
                events := events w @ [Log (DebugMode a (SCAN_PORT cfg)),
                                      Call (TryConnectToPeer (Some a) (Some (SCAN_PORT cfg)) 2000),
                                      Log (DebugComplete a)]\<rparr>)"
  using assms by (simp add: debug_phase_def Let_def tryConnectToPeer_def emit_def)

section \<open>The scan loop\<close>

lemma scan_body_nexts_le:
  "nexts (snd (scan_body e cfg gen st to a g w)) \<le> nexts w + 1"
  by (auto simp: scan_body_def Let_def Date_now_def tryConnectToPeer_def emit_def
      split: prod.splits)

lemma scan_body_continue_nexts:
  "fst (scan_body e cfg gen st to a g w) = None \<Longrightarrow>
   nexts (snd (scan_body e cfg gen st to a g w)) = nexts w + 1"
  by (auto simp: scan_body_def Let_def Date_now_def tryConnectToPeer_def emit_def
      split: prod.splits if_splits)

lemma scan_body_unreachable:
  "\<forall>k a p t. \<not> reachable e k a p t \<Longrightarrow> fst (scan_body e cfg gen st to a g w) \<noteq> Some (Some x)"
  by (auto simp: scan_body_def Let_def Date_now_def tryConnectToPeer_def emit_def
      split: prod.splits if_splits)

lemma scan_body_no_deadline:
  "\<forall>k a p t. \<not> reachable e k a p t \<Longrightarrow> clock e (reads w) - st \<le> to \<Longrightarrow>
   fst (scan_body e cfg gen st to a g w) = None"
  by (auto simp: scan_body_def Let_def Date_now_def tryConnectToPeer_def emit_def
      split: prod.splits if_splits)

lemma scan_loop_nexts_le:
  "nexts (snd (scan_loop e cfg gen st to a g w)) \<le> nexts w + (maxAttempts - a)"
proof (induction e cfg gen st to a g w rule: scan_loop.induct)
  case (1 e cfg gen st to a g w)
  show ?case
  proof (cases "a < maxAttempts")
    case False
    then show ?thesis by (subst scan_loop.simps) simp
  next
    case True
    obtain r w' where b: "scan_body e cfg gen st to a g w = (r, w')"
      by (cases "scan_body e cfg gen st to a g w")
    have s: "nexts w' \<le> nexts w + 1"
      using scan_body_nexts_le [of e cfg gen st to a g w] b by simp
    show ?thesis
    proof (cases r)
      case None
      have "nexts (snd (scan_loop e cfg gen st to (a + 1) (g + 1) w'))
              \<le> nexts w' + (maxAttempts - (a + 1))"
        by (rule "1.IH" [OF True b [symmetric] None])
      then show ?thesis
        using True b None s by (subst scan_loop.simps) simp
    next
      case (Some res)
      then show ?thesis
        using True b s by (subst scan_loop.simps) simp
    qed
  qed
qed

lemma scan_loop_unreachable:
  assumes "\<forall>k a p t. \<not> reachable e k a p t"
  shows "fst (scan_loop e cfg gen st to a g w) = None"
  using assms
proof (induction e cfg gen st to a g w rule: scan_loop.induct)
  case (1 e cfg gen st to a g w)
  show ?case
  proof (cases "a < maxAttempts")
    case False
    then show ?thesis by (subst scan_loop.simps) simp
  next
    case True
    obtain r w' where b: "scan_body e cfg gen st to a g w = (r, w')"
      by (cases "scan_body e cfg gen st to a g w")
    show ?thesis
    proof (cases r)
      case None
      then show ?thesis
        using True b "1.IH" [OF True b [symmetric] None "1.prems"]
        by (subst scan_loop.simps) simp
    next
      case (Some res)
      then have "res = None"
        using scan_body_unreachable [OF "1.prems", of cfg gen st to a g w] b
        by (cases res) auto
      then show ?thesis
        using True b Some by (subst scan_loop.simps) simp
    qed
  qed
qed

lemma scan_loop_exhausts:
  assumes "\<forall>k a p t. \<not> reachable e k a p t" and "\<forall>k. clock e k - st \<le> to"
  shows "nexts (snd (scan_loop e cfg gen st to a g w)) = nexts w + (maxAttempts - a)"
  using assms
proof (induction e cfg gen st to a g w rule: scan_loop.induct)
  case (1 e cfg gen st to a g w)
  show ?case
  proof (cases "a < maxAttempts")
    case False
    then show ?thesis by (subst scan_loop.simps) simp
  next
    case True
    have n: "fst (scan_body e cfg gen st to a g w) = None"
      using "1.prems" by (simp add: scan_body_no_deadline)
    obtain w' where b: "scan_body e cfg gen st to a g w = (None, w')"
      using n by (cases "scan_body e cfg gen st to a g w") auto
    have s: "nexts w' = nexts w + 1"
      using scan_body_continue_nexts [OF n] b by simp
    have "nexts (snd (scan_loop e cfg gen st to (a + 1) (g + 1) w'))
            = nexts w' + (maxAttempts - (a + 1))"
      by (rule "1.IH" [OF True b [symmetric] refl "1.prems"])
    then show ?thesis
      using True b s by (subst scan_loop.simps) simp
  qed
qed

section \<open>Three concrete runs of the orchestrator\<close>

lemma skip_8888: "shouldSkipAddress ''8.8.8.8'' = False"
  by (simp add: shouldSkipAddress_def Number_of_def digit_of_def part_eq_def part_def
      part_between_def part_ge_def Let_def)

text \<open>A reachable debug peer.\<close>

lemma debug_run:
  "bootstrapPeers open_env debug_config 7 fresh_world
     = (Some (address_object ''203.0.113.9'' 3000),
        fresh_world\<lparr>conns := 1,
          events := [Log (StartingBootstrap 7), Log (DebugMode ''203.0.113.9'' 3000),
                     Call (TryConnectToPeer (Some ''203.0.113.9'') (Some 3000) 2000),
                     Log (DebugComplete ''203.0.113.9'')]\<rparr>)"
  by (simp add: bootstrapPeers_def debug_phase_def debug_config_def cache_on_def
      default_config_def open_env_def quiet_env_def fresh_world_def
      tryConnectToPeer_def emit_def Let_def)

lemma debug_run_result:
  "debug_result open_env debug_config 7 fresh_world = Some (address_object ''203.0.113.9'' 3000)"
  by (simp add: debug_result_def after_start_def debug_phase_def debug_config_def cache_on_def
      default_config_def open_env_def quiet_env_def fresh_world_def
      tryConnectToPeer_def emit_def Let_def)

text \<open>No debug peer, and a reachable peer in the cache.\<close>

lemma cached_run:
  "bootstrapPeers open_env cache_on 7 cached_world
     = (Some fresh_peer,
        cached_world\<lparr>reads := 1, conns := 1,
          events := [Log (StartingBootstrap 7), Call RetryCachedPeers, Call LoadPeerCache,
                     Log (AttemptingReconnect 1),
                     Log (TryingCachedPeer (Some ''203.0.113.9'') (Some 3000)),
                     Call (TryConnectToPeer (Some ''203.0.113.9'') (Some 3000) 500),
                     Log (ReconnectedToCachedPeer (Some ''203.0.113.9'')),
                     Log (CachedComplete (Some ''203.0.113.9''))]\<rparr>)"
  by (simp add: bootstrapPeers_def debug_phase_def cache_on_def
      default_config_def open_env_def quiet_env_def fresh_world_def cached_world_def
      tryConnectToPeer_def emit_def Let_def retryCachedPeers_def loadPeerCache_def
      loadPeerCache_try_def selected_peers_def Date_now_def is_fresh_def fresh_peer_def)

lemma cached_run_results:
  "debug_result open_env cache_on 7 cached_world = None"
  "cache_result open_env cache_on 7 cached_world = Some fresh_peer"
  by (simp_all add: phase_defs after_start_def debug_phase_def cache_on_def
      default_config_def open_env_def quiet_env_def fresh_world_def cached_world_def
      tryConnectToPeer_def emit_def Let_def retryCachedPeers_def loadPeerCache_def
      loadPeerCache_try_def selected_peers_def Date_now_def is_fresh_def fresh_peer_def)

text \<open>
  No debug peer and no cache file: the scan draws 100 candidates and connects to the
  hundredth.
\<close>

lemma scan_run_before:
  "debug_result open_env cache_on 7 fresh_world = None"
  "cache_result open_env cache_on 7 fresh_world = None"
  "after_cache open_env cache_on 7 fresh_world
     = fresh_world\<lparr>events := [Log (StartingBootstrap 7), Call RetryCachedPeers,
                                Call LoadPeerCache, Log NoCachedPeers]\<rparr>"
  by (simp_all add: phase_defs after_start_def debug_phase_def cache_on_def
      default_config_def open_env_def quiet_env_def fresh_world_def
      emit_def Let_def retryCachedPeers_def loadPeerCache_def loadPeerCache_try_def)

lemma scan_run:
  "scan_result open_env cache_on 7 fresh_world = Some (address_object ''8.8.8.8'' 3000) \<and>
   writable (after_scan open_env cache_on 7 fresh_world)"
  unfolding scan_result_def after_scan_def scan_run_before(3)
  by (simp add: scanIPv4Space_def open_env_def quiet_env_def cache_on_def default_config_def
      fresh_world_def scan_loop.simps scan_body_def skip_8888 maxAttempts_def Date_now_def
      tryConnectToPeer_def emit_def Let_def)

section \<open>Properties of the orchestrator\<close>

text \<open>
  Claim C4, as stated, at two concrete runs: a reachable debug peer and a reachable
  cached peer are returned without any call of \<^verbatim>\<open>savePeerCache\<close>, and the cache file is
  left as it was.
\<close>

theorem bootstrap_success_without_save:
  "fst (bootstrapPeers open_env debug_config 7 fresh_world)
     = Some (address_object ''203.0.113.9'' 3000) \<and>
   saves (events (snd (bootstrapPeers open_env debug_config 7 fresh_world))) = [] \<and>
   cacheFile (snd (bootstrapPeers open_env debug_config 7 fresh_world)) = Missing \<and>
   fst (bootstrapPeers open_env cache_on 7 cached_world) = Some fresh_peer \<and>
   saves (events (snd (bootstrapPeers open_env cache_on 7 cached_world))) = [] \<and>
   cacheFile (snd (bootstrapPeers open_env cache_on 7 cached_world)) = cacheFile cached_world"
  by (simp only: debug_run cached_run) (simp add: saves_def fresh_world_def cached_world_def)

text \<open>
  Claim C4, amended. A peer obtained from the debug block or from the cache replay is
  returned without a call of \<^verbatim>\<open>savePeerCache\<close>. A peer found by the scan is completed with
  \<^verbatim>\<open>id: null\<close> and the current time as \<^verbatim>\<open>lastSeen\<close>, handed to \<^verbatim>\<open>savePeerCache\<close> in one call as
  the only element, and returned; with the cache enabled and the file writable, the file
  then holds exactly this peer under version 1. When every phase fails nothing is saved.
\<close>

theorem bootstrap_saves_scanned_peer:
  "(debug_result e cfg seed w = Some p \<longrightarrow>
      fst (bootstrapPeers e cfg seed w) = Some p \<and>
      saves (events (snd (bootstrapPeers e cfg seed w))) = saves (events w)) \<and>
   (debug_result e cfg seed w = None \<and> cache_result e cfg seed w = Some p \<longrightarrow>
      fst (bootstrapPeers e cfg seed w) = Some p \<and>
      saves (events (snd (bootstrapPeers e cfg seed w))) = saves (events w)) \<and>
   (debug_result e cfg seed w = None \<and> cache_result e cfg seed w = None \<and>
    scan_result e cfg seed w = Some sp \<and>
    found = sp\<lparr>p_id := None, p_lastSeen := Some (clock e (reads (after_scan e cfg seed w)))\<rparr> \<longrightarrow>
      fst (bootstrapPeers e cfg seed w) = Some found \<and>
      saves (events (snd (bootstrapPeers e cfg seed w))) = saves (events w) @ [[found]] \<and>
      (PEER_CACHE_ENABLED cfg \<and> writable (after_scan e cfg seed w) \<longrightarrow>
         cacheFile (snd (bootstrapPeers e cfg seed w))
           = Parsed (JObject (Some 1) (Some (clock e (reads (after_scan e cfg seed w) + 1)))
                       (Some [EObj found])))) \<and>
   (debug_result e cfg seed w = None \<and> cache_result e cfg seed w = None \<and>
    scan_result e cfg seed w = None \<longrightarrow>
      fst (bootstrapPeers e cfg seed w) = None \<and>
      saves (events (snd (bootstrapPeers e cfg seed w))) = saves (events w))"
proof (intro conjI impI)
  assume "debug_result e cfg seed w = Some p"
  then show "fst (bootstrapPeers e cfg seed w) = Some p"
    and "saves (events (snd (bootstrapPeers e cfg seed w))) = saves (events w)"
    by (simp_all add: bootstrap_debug saves_after_debug)
next
  assume "debug_result e cfg seed w = None \<and> cache_result e cfg seed w = Some p"
  then show "fst (bootstrapPeers e cfg seed w) = Some p"
    and "saves (events (snd (bootstrapPeers e cfg seed w))) = saves (events w)"
    by (simp_all add: bootstrap_cached saves_after_cache saves_emit)
next
  assume h: "debug_result e cfg seed w = None \<and> cache_result e cfg seed w = None \<and>
    scan_result e cfg seed w = Some sp \<and>
    found = sp\<lparr>p_id := None, p_lastSeen := Some (clock e (reads (after_scan e cfg seed w)))\<rparr>"
  then have b: "bootstrapPeers e cfg seed w
     = (Some found, emit (Log ScanComplete)
          (savePeerCache e cfg [found] (snd (Date_now e (after_scan e cfg seed w)))))"
    by (simp add: bootstrap_scanned)
  show "fst (bootstrapPeers e cfg seed w) = Some found"
    by (simp add: b)
  show "saves (events (snd (bootstrapPeers e cfg seed w))) = saves (events w) @ [[found]]"
    using saves_after_scan [of e cfg seed w]
    by (simp add: b saves_emit savePeerCache_events)
  assume "PEER_CACHE_ENABLED cfg \<and> writable (after_scan e cfg seed w)"
  then show "cacheFile (snd (bootstrapPeers e cfg seed w))
           = Parsed (JObject (Some 1) (Some (clock e (reads (after_scan e cfg seed w) + 1)))
                       (Some [EObj found]))"
    by (simp add: b emit_def savePeerCache_file Date_now_def)
next
  assume "debug_result e cfg seed w = None \<and> cache_result e cfg seed w = None \<and>
    scan_result e cfg seed w = None"
  then show "fst (bootstrapPeers e cfg seed w) = None"
    and "saves (events (snd (bootstrapPeers e cfg seed w))) = saves (events w)"
    by (simp_all add: bootstrap_fallback saves_after_scan saves_emit)
qed

theorem bootstrap_saves_scanned_peer_witness:
  "debug_result open_env cache_on 7 fresh_world = None \<and>
   cache_result open_env cache_on 7 fresh_world = None \<and>
   scan_result open_env cache_on 7 fresh_world = Some (address_object ''8.8.8.8'' 3000) \<and>
   fst (bootstrapPeers open_env cache_on 7 fresh_world) = Some found_peer \<and>
   saves (events (snd (bootstrapPeers open_env cache_on 7 fresh_world))) = [[found_peer]] \<and>
   cacheFile (snd (bootstrapPeers open_env cache_on 7 fresh_world))
     = Parsed (JObject (Some 1) (Some 6000) (Some [EObj found_peer])) \<and>
   debug_result open_env cache_on 7 cached_world = None \<and>
   cache_result open_env cache_on 7 cached_world = Some fresh_peer \<and>
   saves (events (snd (bootstrapPeers open_env cache_on 7 cached_world))) = []"
proof -
  have f: "found_peer = (address_object ''8.8.8.8'' 3000)
             \<lparr>p_id := None,
               p_lastSeen := Some (clock open_env (reads (after_scan open_env cache_on 7 fresh_world)))\<rparr>"
    by (simp add: found_peer_def address_object_def open_env_def quiet_env_def)
  have c: "PEER_CACHE_ENABLED cache_on"
    by (simp add: cache_on_def default_config_def)
  have t: "clock open_env (reads (after_scan open_env cache_on 7 fresh_world) + 1) = 6000"
    by (simp add: open_env_def quiet_env_def)
  have n: "saves (events fresh_world) = []" "saves (events cached_world) = []"
    by (simp_all add: saves_def fresh_world_def cached_world_def)
  show ?thesis
    using bootstrap_saves_scanned_peer
            [of open_env cache_on 7 fresh_world fresh_peer "address_object ''8.8.8.8'' 3000"
                found_peer]
          bootstrap_saves_scanned_peer
            [of open_env cache_on 7 cached_world fresh_peer "address_object ''8.8.8.8'' 3000"
                found_peer]
          scan_run_before(1,2) scan_run cached_run_results f c t n
    by simp
qed

text \<open>
  Claim C8. With a debug peer configured and reachable, \<^verbatim>\<open>bootstrapPeers\<close> returns that
  peer after one connection attempt, and the trace grows by the four events of the debug
  block only. In every run, a start of the cache replay in the trace implies that the
  debug block yielded no peer, and a start of the scan implies that the debug block and
  the cache replay both yielded none; the cache replay starts after every event of the
  debug block, and the scan after every event of the cache replay.
\<close>

theorem bootstrap_phase_precedence:
  "(BOOTSTRAP_PEER_IP cfg = Some a \<and> a \<noteq> [] \<and>
    reachable e (conns w) (Some a) (Some (SCAN_PORT cfg)) 2000 \<longrightarrow>
      bootstrapPeers e cfg seed w
        = (Some (address_object a (SCAN_PORT cfg)),
           w\<lparr>conns := conns w + 1,
             events := events w @ [Log (StartingBootstrap seed),
                                   Log (DebugMode a (SCAN_PORT cfg)),
                                   Call (TryConnectToPeer (Some a) (Some (SCAN_PORT cfg)) 2000),
                                   Log (DebugComplete a)]\<rparr>)) \<and>
   (filter is_cache_start (events (snd (bootstrapPeers e cfg seed w)))
      \<noteq> filter is_cache_start (events w) \<longrightarrow>
      debug_result e cfg seed w = None) \<and>
   (filter is_scan_start (events (snd (bootstrapPeers e cfg seed w)))
      \<noteq> filter is_scan_start (events w) \<longrightarrow>
      debug_result e cfg seed w = None \<and> cache_result e cfg seed w = None) \<and>
   (debug_result e cfg seed w = None \<longrightarrow>
      (\<exists>evs. events (snd (bootstrapPeers e cfg seed w))
               = events (after_debug e cfg seed w) @ Call RetryCachedPeers # evs)) \<and>
   (debug_result e cfg seed w = None \<and> cache_result e cfg seed w = None \<longrightarrow>
      (\<exists>evs. events (snd (bootstrapPeers e cfg seed w))
               = events (after_cache e cfg seed w)
                 @ Call (ScanIPv4Space seed (BOOTSTRAP_TIMEOUT cfg)) # evs))"
proof (intro conjI impI)
  assume h: "BOOTSTRAP_PEER_IP cfg = Some a \<and> a \<noteq> [] \<and>
    reachable e (conns w) (Some a) (Some (SCAN_PORT cfg)) 2000"
  then have "reachable e (conns (after_start seed w)) (Some a) (Some (SCAN_PORT cfg)) 2000"
    by (simp add: after_start_def emit_def)
  then have d: "debug_phase e cfg (after_start seed w)
           = (Some (address_object a (SCAN_PORT cfg)),
              (after_start seed w)\<lparr>conns := conns (after_start seed w) + 1,
                events := events (after_start seed w)
                          @ [Log (DebugMode a (SCAN_PORT cfg)),
                             Call (TryConnectToPeer (Some a) (Some (SCAN_PORT cfg)) 2000),
                             Log (DebugComplete a)]\<rparr>)"
    using h debug_phase_success [of cfg a e "after_start seed w"] by blast
  then have "debug_result e cfg seed w = Some (address_object a (SCAN_PORT cfg))"
    by (simp add: debug_result_def)
  then show "bootstrapPeers e cfg seed w
        = (Some (address_object a (SCAN_PORT cfg)),
           w\<lparr>conns := conns w + 1,
             events := events w @ [Log (StartingBootstrap seed),
                                   Log (DebugMode a (SCAN_PORT cfg)),
                                   Call (TryConnectToPeer (Some a) (Some (SCAN_PORT cfg)) 2000),
                                   Log (DebugComplete a)]\<rparr>)"
    using d by (simp add: bootstrap_debug after_debug_def) (simp add: after_start_def emit_def)
next
  assume n: "filter is_cache_start (events (snd (bootstrapPeers e cfg seed w)))
      \<noteq> filter is_cache_start (events w)"
  show "debug_result e cfg seed w = None"
  proof (rule ccontr)
    assume "debug_result e cfg seed w \<noteq> None"
    then obtain p where "debug_result e cfg seed w = Some p" by auto
    then have "snd (bootstrapPeers e cfg seed w) = after_debug e cfg seed w"
      by (simp add: bootstrap_debug)
    then show False using n starts_after_debug(1) [of e cfg seed w] by simp
  qed
next
  assume n: "filter is_scan_start (events (snd (bootstrapPeers e cfg seed w)))
      \<noteq> filter is_scan_start (events w)"
  show d: "debug_result e cfg seed w = None"
  proof (rule ccontr)
    assume "debug_result e cfg seed w \<noteq> None"
    then obtain p where "debug_result e cfg seed w = Some p" by auto
    then have "snd (bootstrapPeers e cfg seed w) = after_debug e cfg seed w"
      by (simp add: bootstrap_debug)
    then show False using n starts_after_debug(2) [of e cfg seed w] by simp
  qed
  show "cache_result e cfg seed w = None"
  proof (rule ccontr)
    assume "cache_result e cfg seed w \<noteq> None"
    then obtain p where "cache_result e cfg seed w = Some p" by auto
    then have "snd (bootstrapPeers e cfg seed w)
                 = emit (Log (CachedComplete (p_ip p))) (after_cache e cfg seed w)"
      using d by (simp add: bootstrap_cached)
    then show False using n scan_starts_after_cache [of e cfg seed w] by (simp add: emit_def)
  qed
next
  assume d: "debug_result e cfg seed w = None"
  obtain evs where e: "events (after_cache e cfg seed w)
            = events (after_debug e cfg seed w) @ Call RetryCachedPeers # evs"
    using after_cache_events by blast
  obtain evs' where "events (snd (bootstrapPeers e cfg seed w))
                       = events (after_cache e cfg seed w) @ evs'"
    using bootstrap_extends_cache [OF d] by blast
  then show "\<exists>evs. events (snd (bootstrapPeers e cfg seed w))
               = events (after_debug e cfg seed w) @ Call RetryCachedPeers # evs"
    using e by simp
next
  assume h: "debug_result e cfg seed w = None \<and> cache_result e cfg seed w = None"
  obtain evs where e: "events (after_scan e cfg seed w)
      = events (after_cache e cfg seed w) @ Call (ScanIPv4Space seed (BOOTSTRAP_TIMEOUT cfg)) # evs"
    using after_scan_events by blast
  obtain evs' where "events (snd (bootstrapPeers e cfg seed w))
                       = events (after_scan e cfg seed w) @ evs'"
    using bootstrap_extends_scan h by blast
  then show "\<exists>evs. events (snd (bootstrapPeers e cfg seed w))
               = events (after_cache e cfg seed w)
                 @ Call (ScanIPv4Space seed (BOOTSTRAP_TIMEOUT cfg)) # evs"
    using e by simp
qed

theorem bootstrap_phase_precedence_witness:
  "BOOTSTRAP_PEER_IP debug_config = Some ''203.0.113.9'' \<and>
   reachable open_env (conns fresh_world) (Some ''203.0.113.9'') (Some (SCAN_PORT debug_config)) 2000 \<and>
   bootstrapPeers open_env debug_config 7 fresh_world
     = (Some (address_object ''203.0.113.9'' 3000),
        fresh_world\<lparr>conns := 1,
          events := [Log (StartingBootstrap 7), Log (DebugMode ''203.0.113.9'' 3000),
                     Call (TryConnectToPeer (Some ''203.0.113.9'') (Some 3000) 2000),
                     Log (DebugComplete ''203.0.113.9'')]\<rparr>) \<and>
   filter is_cache_start (events (snd (bootstrapPeers open_env cache_on 7 cached_world)))
     \<noteq> filter is_cache_start (events cached_world) \<and>
   debug_result open_env cache_on 7 cached_world = None \<and>
   debug_result open_env cache_on 7 fresh_world = None \<and>
   cache_result open_env cache_on 7 fresh_world = None \<and>
   (\<exists>evs. events (snd (bootstrapPeers open_env cache_on 7 fresh_world))
            = [Log (StartingBootstrap 7), Call RetryCachedPeers, Call LoadPeerCache,
               Log NoCachedPeers, Call (ScanIPv4Space 7 10000)] @ evs)"
proof -
  have a: "BOOTSTRAP_PEER_IP debug_config = Some ''203.0.113.9'' \<and> ''203.0.113.9'' \<noteq> [] \<and>
           reachable open_env (conns fresh_world) (Some ''203.0.113.9'')
             (Some (SCAN_PORT debug_config)) 2000"
    by (simp add: debug_config_def cache_on_def default_config_def open_env_def quiet_env_def)
  have b: "filter is_cache_start (events (snd (bootstrapPeers open_env cache_on 7 cached_world)))
             \<noteq> filter is_cache_start (events cached_world)"
    by (simp only: cached_run) (simp add: cached_world_def fresh_world_def)
  have t: "BOOTSTRAP_TIMEOUT cache_on = 10000" "SCAN_PORT debug_config = 3000"
    by (simp_all add: cache_on_def debug_config_def default_config_def)
  show ?thesis
    using a b t scan_run_before
          bootstrap_phase_precedence [of debug_config "''203.0.113.9''" open_env fresh_world 7]
          bootstrap_phase_precedence [of cache_on "''203.0.113.9''" open_env cached_world 7]
          bootstrap_phase_precedence [of cache_on "''203.0.113.9''" open_env fresh_world 7]
    by (simp add: fresh_world_def)
qed

text \<open>
  Claim C9. \<^verbatim>\<open>scanIPv4Space\<close> is a total function, and for every environment, seed and
  timeout it draws at most 100000 candidates from the generator. When no connection
  succeeds it returns \<^verbatim>\<open>null\<close>, and when moreover the clock never passes the deadline it
  does so after drawing exactly 100000 candidates.
\<close>

theorem scan_bounded_by_maxAttempts:
  "nexts (snd (scanIPv4Space e cfg seed timeout w)) \<le> nexts w + 100000 \<and>
   ((\<forall>k a p t. \<not> reachable e k a p t) \<longrightarrow>
      fst (scanIPv4Space e cfg seed timeout w) = None) \<and>
   ((\<forall>k a p t. \<not> reachable e k a p t) \<and> (\<forall>k. clock e k - clock e (reads w) \<le> timeout) \<longrightarrow>
      fst (scanIPv4Space e cfg seed timeout w) = None \<and>
      nexts (snd (scanIPv4Space e cfg seed timeout w)) = nexts w + 100000)"
proof -
  let ?w2 = "emit (Log (StartingScan (SCAN_PORT cfg) timeout))
               (snd (Date_now e (emit (Call (ScanIPv4Space seed timeout)) w)))"
  let ?st = "clock e (reads w)"
  have "fst (Date_now e (emit (Call (ScanIPv4Space seed timeout)) w)) = ?st"
    by (simp add: Date_now_def emit_def)
  then have eq: "scanIPv4Space e cfg seed timeout w
              = scan_loop e cfg (createFeistelGenerator e seed) ?st timeout 0 0 ?w2"
    by (simp only: scanIPv4Space_def Let_def split_beta)
  have n: "nexts ?w2 = nexts w"
    by (simp add: emit_def Date_now_def)
  have a: "nexts (snd (scanIPv4Space e cfg seed timeout w)) \<le> nexts w + 100000"
    using scan_loop_nexts_le [of e cfg "createFeistelGenerator e seed" ?st timeout 0 0 ?w2] n
    by (simp only: eq) (simp add: maxAttempts_def)
  have b: "(\<forall>k a p t. \<not> reachable e k a p t) \<longrightarrow>
      fst (scanIPv4Space e cfg seed timeout w) = None"
    by (simp only: eq) (simp add: scan_loop_unreachable)
  have c: "(\<forall>k a p t. \<not> reachable e k a p t) \<and> (\<forall>k. clock e k - ?st \<le> timeout) \<longrightarrow>
      nexts (snd (scanIPv4Space e cfg seed timeout w)) = nexts w + 100000"
  proof
    assume h: "(\<forall>k a p t. \<not> reachable e k a p t) \<and> (\<forall>k. clock e k - ?st \<le> timeout)"
    then show "nexts (snd (scanIPv4Space e cfg seed timeout w)) = nexts w + 100000"
      using scan_loop_exhausts [of e ?st timeout cfg "createFeistelGenerator e seed" 0 0 ?w2] n
      by (simp only: eq) (simp add: maxAttempts_def)
  qed
  show ?thesis using a b c by blast
qed

text \<open>A clock that stands still and a network without peers: 100000 candidates, no peer.\<close>

theorem scan_bounded_by_maxAttempts_witness:
  "(\<forall>k a p t. \<not> reachable quiet_env k a p t) \<and>
   (\<forall>k. clock quiet_env k - clock quiet_env (reads fresh_world) \<le> 10000) \<and>
   fst (scanIPv4Space quiet_env default_config 7 10000 fresh_world) = None \<and>
   nexts (snd (scanIPv4Space quiet_env default_config 7 10000 fresh_world)) = 100000"
proof -
  have h: "(\<forall>k a p t. \<not> reachable quiet_env k a p t) \<and>
           (\<forall>k. clock quiet_env k - clock quiet_env (reads fresh_world) \<le> 10000)"
    by (simp add: quiet_env_def)
  show ?thesis
    using h scan_bounded_by_maxAttempts [of quiet_env default_config 7 10000 fresh_world]
    by (simp add: fresh_world_def)
qed

end
